theory Spec2Isabelle
  imports Main "HOL-Library.Word"
begin

unbundle bit_operations_syntax

section \<open>Strings\<close>

text \<open>
  A Go string is a sequence of bytes; it is modelled as a \<^typ>\<open>string\<close>, one
  \<^typ>\<open>char\<close> per byte. \<open>ToLower\<close> is \<open>strings.ToLower\<close> on ASCII strings: the letters
  \<open>A\<close> to \<open>Z\<close> are mapped to \<open>a\<close> to \<open>z\<close> and every other byte is kept. On a string
  with bytes beyond ASCII Go's function works on the runes (it maps the Kelvin sign
  \<open>U+212A\<close> to \<open>k\<close>, and an invalid byte to \<open>U+FFFD\<close>) and is not this one.
  \<open>parseRateLimit\<close>, whose argument comes from the command line as it is, therefore takes
  \<open>strings.ToLower\<close> as a parameter. \<open>processURL\<close> applies \<open>ToLower\<close> to the extension of a
  path; the links and reject entries of the concrete runs are ASCII.
\<close>

definition lower_byte :: "char \<Rightarrow> char" where
  "lower_byte c =
     (let b = (of_char c :: nat) in if 65 \<le> b \<and> b \<le> 90 then char_of (b + 32) else c)"

definition ToLower :: "string \<Rightarrow> string" where
  "ToLower s = map lower_byte s"

text \<open>\<open>strings.HasPrefix\<close> and \<open>strings.HasSuffix\<close>.\<close>

definition HasPrefix :: "string \<Rightarrow> string \<Rightarrow> bool" where
  "HasPrefix s p = (length p \<le> length s \<and> take (length p) s = p)"

definition HasSuffix :: "string \<Rightarrow> string \<Rightarrow> bool" where
  "HasSuffix s x = (length x \<le> length s \<and> drop (length s - length x) s = x)"

section \<open>main.go: parseRateLimit\<close>

subsection \<open>strconv.ParseInt at base 10 and 64 bits\<close>

datatype num_error = ErrSyntax | ErrRange

text \<open>
  The digit switch of \<open>strconv.ParseUint\<close> (with \<open>base0 = false\<close>): a decimal digit is
  its value, a letter is \<open>lower(c) - 'a' + 10\<close> where \<open>lower(c) = c | 0x20\<close>, and any other
  byte is the \<open>default\<close> case (a syntax error, \<open>None\<close> here).
\<close>

definition digit_val :: "char \<Rightarrow> nat option" where
  "digit_val c =
     (let b = (of_char c :: nat) in
      if 48 \<le> b \<and> b \<le> 57 then Some (b - 48)
      else if 97 \<le> (b OR 32) \<and> (b OR 32) \<le> 122 then Some ((b OR 32) - 97 + 10)
      else None)"

text \<open>\<open>cutoff = maxUint64/10 + 1\<close>: the smallest \<open>n\<close> for which \<open>n * 10\<close> overflows.\<close>

definition cutoff10 :: "64 word" where
  "cutoff10 = 1844674407370955162"

definition maxVal :: "64 word" where
  "maxVal = 18446744073709551615"

text \<open>The loop of \<open>ParseUint\<close> over the bytes of the string, \<open>n\<close> the value so far.\<close>

fun parseUint_loop :: "string \<Rightarrow> 64 word \<Rightarrow> num_error + 64 word" where
  "parseUint_loop [] n = Inr n"
| "parseUint_loop (c # cs) n =
     (case digit_val c of
        None \<Rightarrow> Inl ErrSyntax
      | Some d \<Rightarrow>
          if d \<ge> 10 then Inl ErrSyntax
          else if n \<ge> cutoff10 then Inl ErrRange
          else (let n10 = n * 10; n1 = n10 + of_nat d in
                if n1 < n10 \<or> n1 > maxVal then Inl ErrRange
                else parseUint_loop cs n1))"

definition ParseUint :: "string \<Rightarrow> num_error + 64 word" where
  "ParseUint s = (if s = [] then Inl ErrSyntax else parseUint_loop s 0)"

text \<open>
  \<open>ParseInt(s, 10, 64)\<close>: an optional sign, then \<open>ParseUint\<close>; a range error of
  \<open>ParseUint\<close> comes with the value \<open>maxVal\<close>, which the two range checks then reject.
  The \<open>int64\<close> result is a 64-bit word read in two's complement.
\<close>

definition ParseInt :: "string \<Rightarrow> num_error + 64 word" where
  "ParseInt s =
     (case s of
        [] \<Rightarrow> Inl ErrSyntax
      | c # cs \<Rightarrow>
          (let neg = (c = CHR ''-'');
               s1 = (if c = CHR ''+'' \<or> c = CHR ''-'' then cs else s)
           in case ParseUint s1 of
                Inl ErrSyntax \<Rightarrow> Inl ErrSyntax
              | r \<Rightarrow>
                  (let un = (case r of Inr u \<Rightarrow> u | Inl _ \<Rightarrow> maxVal) in
                   if \<not> neg \<and> un \<ge> 2 ^ 63 then Inl ErrRange
                   else if neg \<and> un > 2 ^ 63 then Inl ErrRange
                   else Inr (if neg then - un else un))))"

subsection \<open>parseRateLimit\<close>

text \<open>
  \<open>parseRateLimit\<close>, with \<open>strings.ToLower\<close> as the parameter \<open>lower\<close>: the rate comes from
  the command line and may hold any bytes.
\<close>

definition parseRateLimit :: "(string \<Rightarrow> string) \<Rightarrow> string \<Rightarrow> num_error + 64 word" where
  "parseRateLimit lower rateLimit =
     (if rateLimit = [] then Inr 0
      else
        (let rl = lower rateLimit;
             (multiplier, rl1) =
               (if HasSuffix rl ''k'' then (1024, take (length rl - 1) rl)
                else if HasSuffix rl ''m'' then (1024 * 1024, take (length rl - 1) rl)
                else (1, rl))
         in case ParseInt rl1 of
              Inl e \<Rightarrow> Inl e
            | Inr rate \<Rightarrow> Inr (rate * multiplier)))"

subsection \<open>The rate as a decimal integer\<close>

text \<open>
  A reference reading of the rate string, independent of the parsing loop: a decimal
  integer is an optional sign followed by at least one digit, its value is computed
  digit by digit on unbounded numbers, and the number part and the multiplier are read
  off the lower-cased string \<open>rl\<close>.
\<close>

definition is_digit :: "char \<Rightarrow> bool" where
  "is_digit c = (48 \<le> (of_char c :: nat) \<and> (of_char c :: nat) \<le> 57)"

fun dec_acc :: "nat \<Rightarrow> string \<Rightarrow> nat" where
  "dec_acc n [] = n"
| "dec_acc n (c # cs) = dec_acc (n * 10 + (of_char c - 48)) cs"

definition digits_value :: "string \<Rightarrow> nat" where
  "digits_value s = dec_acc 0 s"

definition is_decimal :: "string \<Rightarrow> bool" where
  "is_decimal s =
     (case s of
        [] \<Rightarrow> False
      | c # cs \<Rightarrow>
          if c = CHR ''+'' \<or> c = CHR ''-'' then cs \<noteq> [] \<and> list_all is_digit cs
          else list_all is_digit s)"

definition decimal_value :: "string \<Rightarrow> int" where
  "decimal_value s =
     (case s of
        [] \<Rightarrow> 0
      | c # cs \<Rightarrow>
          if c = CHR ''-'' then - int (digits_value cs)
          else if c = CHR ''+'' then int (digits_value cs)
          else int (digits_value s))"

definition fits_int64 :: "int \<Rightarrow> bool" where
  "fits_int64 v = (- (2 ^ 63) \<le> v \<and> v < 2 ^ 63)"

definition rate_multiplier :: "string \<Rightarrow> int" where
  "rate_multiplier rl =
     (if rl \<noteq> [] \<and> last rl = CHR ''k'' then 1024
      else if rl \<noteq> [] \<and> last rl = CHR ''m'' then 1048576
      else 1)"

definition rate_number :: "string \<Rightarrow> string" where
  "rate_number rl =
     (if rl \<noteq> [] \<and> (last rl = CHR ''k'' \<or> last rl = CHR ''m'') then butlast rl else rl)"

text \<open>The bytes of the Kelvin sign \<open>U+212A\<close> in UTF-8.\<close>

definition kelvin_sign :: string where
  "kelvin_sign = [char_of (226 :: nat), char_of (132 :: nat), char_of (170 :: nat)]"

section \<open>Paths: the functions of \<open>path\<close> and \<open>path/filepath\<close> that the mirror uses\<close>

text \<open>\<open>strings.Split(s, "/")\<close> and \<open>strings.Join(elems, "/")\<close>.\<close>

fun split_slash :: "string \<Rightarrow> string list" where
  "split_slash [] = [[]]"
| "split_slash (c # cs) =
     (if c = CHR ''/'' then [] # split_slash cs
      else (case split_slash cs of [] \<Rightarrow> [[c]] | e # es \<Rightarrow> (c # e) # es))"

fun join_slash :: "string list \<Rightarrow> string" where
  "join_slash [] = []"
| "join_slash [e] = e"
| "join_slash (e # es) = e @ CHR ''/'' # join_slash es"

text \<open>
  \<open>path.Clean\<close>, on the elements of the path instead of byte by byte. \<open>out\<close> is the
  output buffer as a stack of elements, last written first. Empty and \<open>.\<close> elements
  are dropped. A \<open>..\<close> element removes the last real element when there is one (the
  buffer reaches beyond \<open>dotdot\<close>); otherwise it is appended when the path is not
  rooted, and dropped when it is. The only \<open>..\<close> elements in the buffer are the ones
  appended this way, below every real element.
\<close>

fun clean_elems :: "bool \<Rightarrow> string list \<Rightarrow> string list \<Rightarrow> string list" where
  "clean_elems rooted [] out = out"
| "clean_elems rooted (e # es) out =
     (if e = [] \<or> e = ''.'' then clean_elems rooted es out
      else if e = ''..'' then
        (if out \<noteq> [] \<and> hd out \<noteq> ''..'' then clean_elems rooted es (tl out)
         else if \<not> rooted then clean_elems rooted es (''..'' # out)
         else clean_elems rooted es out)
      else clean_elems rooted es (e # out))"

definition Clean :: "string \<Rightarrow> string" where
  "Clean p =
     (if p = [] then ''.''
      else
        (let rooted = (hd p = CHR ''/'');
             out = rev (clean_elems rooted (split_slash p) [])
         in if rooted then CHR ''/'' # join_slash out
            else if out = [] then ''.''
            else join_slash out))"

text \<open>
  \<open>path.Join\<close> (and \<open>filepath.Join\<close> on Unix): leading empty elements are skipped, the
  others are joined with a slash, and the result is cleaned; all empty gives \<open>""\<close>.
\<close>

definition Join :: "string list \<Rightarrow> string" where
  "Join elem =
     (case dropWhile (\<lambda>e. e = []) elem of
        [] \<Rightarrow> []
      | es \<Rightarrow> Clean (join_slash es))"

text \<open>
  \<open>path.Ext\<close>: the suffix from the last dot of the last element, \<open>""\<close> without one. The
  scan runs from the end of the string towards the last slash; \<open>acc\<close> holds the bytes
  already passed.
\<close>

fun ext_scan :: "string \<Rightarrow> string \<Rightarrow> string" where
  "ext_scan [] acc = []"
| "ext_scan (c # cs) acc =
     (if c = CHR ''/'' then []
      else if c = CHR ''.'' then c # acc
      else ext_scan cs (c # acc))"

definition Ext :: "string \<Rightarrow> string" where
  "Ext p = ext_scan (rev p) []"

text \<open>\<open>path.Base\<close>: the last element, after trailing slashes are removed.\<close>

definition Base :: "string \<Rightarrow> string" where
  "Base p =
     (if p = [] then ''.''
      else
        (let p1 = rev (dropWhile (\<lambda>c. c = CHR ''/'') (rev p));
             p2 = rev (takeWhile (\<lambda>c. c \<noteq> CHR ''/'') (rev p1))
         in if p2 = [] then ''/'' else p2))"

text \<open>\<open>filepath.Dir\<close> on Unix: everything up to the last slash, cleaned.\<close>

definition Dir :: "string \<Rightarrow> string" where
  "Dir p = Clean (rev (dropWhile (\<lambda>c. c \<noteq> CHR ''/'') (rev p)))"

section \<open>URLs: the part of \<open>net/url\<close> that the mirror uses\<close>

text \<open>
  The fields of \<open>url.URL\<close> that the mirror reads or that \<open>String\<close> prints on plain
  references.
\<close>

record url =
  Scheme :: string
  Opaque :: string
  Host :: string
  Path :: string
  OmitHost :: bool
  ForceQuery :: bool
  RawQuery :: string
  Fragment :: string

text \<open>\<open>u.IsAbs()\<close> is \<open>u.Scheme != ""\<close>.\<close>

definition IsAbs :: "url \<Rightarrow> bool" where
  "IsAbs u = (Scheme u \<noteq> [])"

text \<open>
  The functions of \<open>net/url\<close> are a parameter of the model: \<open>url_Parse\<close> is
  \<open>url.Parse\<close> (\<open>None\<close> when it returns an error), \<open>url_ResolveReference base ref\<close> is
  \<open>base.ResolveReference(ref)\<close>, and \<open>url_String\<close> is \<open>u.String()\<close>. The general
  theorems hold for every such library.
\<close>

record urllib =
  url_Parse :: "string \<Rightarrow> url option"
  url_ResolveReference :: "url \<Rightarrow> url \<Rightarrow> url"
  url_String :: "url \<Rightarrow> string"

subsection \<open>A model of \<open>net/url\<close> on plain references\<close>

text \<open>
  For concrete runs, \<open>net_url\<close> follows \<open>net/url\<close> (Go 1.19 and later) on plain URL
  references: letters, digits and the characters \<open>- . _ ~ / : ? # = &\<close>, without userinfo
  and without a port or a bracketed address in the authority. On these, escaping and
  unescaping are the identity and the authority is the host, so \<open>RawPath\<close>,
  \<open>RawFragment\<close> and \<open>User\<close> play no role and are left out; the one escape that
  occurs is that of a \<open>#\<close> inside a fragment, when the URL is printed. The concrete
  inputs of this theory are all of this kind.
\<close>

text \<open>\<open>strings.Cut(s, sep)\<close> for a one-byte separator: before, after, found.\<close>

definition cut :: "char \<Rightarrow> string \<Rightarrow> string \<times> string \<times> bool" where
  "cut c s =
     (let a = takeWhile (\<lambda>x. x \<noteq> c) s
      in if length a < length s then (a, drop (length a + 1) s, True) else (s, [], False))"

definition is_alpha :: "char \<Rightarrow> bool" where
  "is_alpha c =
     (let b = (of_char c :: nat) in (97 \<le> b \<and> b \<le> 122) \<or> (65 \<le> b \<and> b \<le> 90))"

text \<open>
  \<open>getScheme\<close>: \<open>i\<close> is the index of the byte \<open>c\<close>, \<open>pre\<close> the bytes before it in reverse.
  The result is \<open>None\<close> for the error "missing protocol scheme".
\<close>

fun getScheme_loop :: "string \<Rightarrow> nat \<Rightarrow> string \<Rightarrow> string \<Rightarrow> (string \<times> string) option" where
  "getScheme_loop rawURL i pre [] = Some ([], rawURL)"
| "getScheme_loop rawURL i pre (c # cs) =
     (if is_alpha c then getScheme_loop rawURL (Suc i) (c # pre) cs
      else if is_digit c \<or> c = CHR ''+'' \<or> c = CHR ''-'' \<or> c = CHR ''.'' then
        (if i = 0 then Some ([], rawURL) else getScheme_loop rawURL (Suc i) (c # pre) cs)
      else if c = CHR '':'' then
        (if i = 0 then None else Some (rev pre, cs))
      else Some ([], rawURL))"

definition getScheme :: "string \<Rightarrow> (string \<times> string) option" where
  "getScheme rawURL = getScheme_loop rawURL 0 [] rawURL"

text \<open>\<open>stringContainsCTLByte\<close>: a byte below \<open>0x20\<close> or \<open>0x7f\<close>.\<close>

definition stringContainsCTLByte :: "string \<Rightarrow> bool" where
  "stringContainsCTLByte s = list_ex (\<lambda>c. (of_char c :: nat) < 32 \<or> (of_char c :: nat) = 127) s"

text \<open>\<open>parse(rawURL, viaRequest = false)\<close>, the URL without its fragment.\<close>

definition empty_url :: url where
  "empty_url = \<lparr>Scheme = [], Opaque = [], Host = [], Path = [], OmitHost = False,
     ForceQuery = False, RawQuery = [], Fragment = []\<rparr>"

definition parse_nofrag :: "string \<Rightarrow> url option" where
  "parse_nofrag rawURL =
     (if stringContainsCTLByte rawURL then None
      else if rawURL = ''*'' then Some (empty_url\<lparr>Path := ''*''\<rparr>)
      else
        (case getScheme rawURL of
           None \<Rightarrow> None
         | Some (scheme0, rest0) \<Rightarrow>
             (let scheme = ToLower scheme0;
                  force = (HasSuffix rest0 ''?'' \<and> count_list rest0 CHR ''?'' = 1);
                  rest1 = (if force then take (length rest0 - 1) rest0 else fst (cut CHR ''?'' rest0));
                  query = (if force then [] else fst (snd (cut CHR ''?'' rest0)));
                  u = empty_url\<lparr>Scheme := scheme, ForceQuery := force, RawQuery := query\<rparr>
              in if \<not> HasPrefix rest1 ''/'' \<and> scheme \<noteq> [] then Some (u\<lparr>Opaque := rest1\<rparr>)
                 else if \<not> HasPrefix rest1 ''/'' \<and> CHR '':'' \<in> set (fst (cut CHR ''/'' rest1))
                 then None
                 else if (scheme \<noteq> [] \<or> \<not> HasPrefix rest1 ''///'') \<and> HasPrefix rest1 ''//''
                 then
                   (let authority = takeWhile (\<lambda>c. c \<noteq> CHR ''/'') (drop 2 rest1);
                        rest2 = dropWhile (\<lambda>c. c \<noteq> CHR ''/'') (drop 2 rest1)
                    in Some (u\<lparr>Host := authority, Path := rest2\<rparr>))
                 else Some (u\<lparr>OmitHost := (scheme \<noteq> [] \<and> HasPrefix rest1 ''/''),
                              Path := rest1\<rparr>))))"

text \<open>\<open>url.Parse\<close>: the fragment is cut off at the first \<open>#\<close> and set afterwards.\<close>

definition net_url_Parse :: "string \<Rightarrow> url option" where
  "net_url_Parse rawURL =
     (case cut CHR ''#'' rawURL of
        (u, frag, _) \<Rightarrow>
          (case parse_nofrag u of
             None \<Rightarrow> None
           | Some url \<Rightarrow> Some (url\<lparr>Fragment := frag\<rparr>)))"

text \<open>
  \<open>u.String()\<close>. The fragment is printed by \<open>EscapedFragment\<close>: of the characters of plain
  references it escapes \<open>#\<close> alone, as \<open>%23\<close>.
\<close>

definition escape_fragment :: "string \<Rightarrow> string" where
  "escape_fragment f = concat (map (\<lambda>c. if c = CHR ''#'' then ''%23'' else [c]) f)"

definition net_url_String :: "url \<Rightarrow> string" where
  "net_url_String u =
     (let s1 = (if Scheme u \<noteq> [] then Scheme u @ '':'' else []);
          s2 =
            (if Opaque u \<noteq> [] then s1 @ Opaque u
             else
               (let a = (if (Scheme u \<noteq> [] \<or> Host u \<noteq> []) \<and> \<not> (OmitHost u \<and> Host u = [])
                         then (if Host u \<noteq> [] \<or> Path u \<noteq> [] then s1 @ ''//'' else s1) @ Host u
                         else s1);
                    b = (if Path u \<noteq> [] \<and> hd (Path u) \<noteq> CHR ''/'' \<and> Host u \<noteq> []
                         then a @ ''/'' else a);
                    c = (if b = [] \<and> CHR '':'' \<in> set (fst (cut CHR ''/'' (Path u)))
                         then ''./'' else b)
                in c @ Path u));
          s3 = (if ForceQuery u \<or> RawQuery u \<noteq> [] then s2 @ ''?'' @ RawQuery u else s2)
      in if Fragment u \<noteq> [] then s3 @ ''#'' @ escape_fragment (Fragment u) else s3)"

text \<open>
  \<open>resolvePath(base, ref)\<close>. The loop runs over the elements of the full path; \<open>dst\<close> is
  the output after its leading slash, \<open>first\<close> the flag of the source, and the result
  carries the last element seen.
\<close>

definition last_slash_prefix :: "string \<Rightarrow> string" where
  "last_slash_prefix s = rev (dropWhile (\<lambda>c. c \<noteq> CHR ''/'') (rev s))"

fun resolve_elems :: "string list \<Rightarrow> string \<Rightarrow> bool \<Rightarrow> string \<Rightarrow> string \<times> string" where
  "resolve_elems [] dst first elem = (dst, elem)"
| "resolve_elems (e # es) dst first elem =
     (if e = ''.'' then resolve_elems es dst False e
      else if e = ''..'' then
        (if CHR ''/'' \<in> set dst
         then resolve_elems es (butlast (last_slash_prefix dst)) first e
         else resolve_elems es [] True e)
      else resolve_elems es ((if first then dst else dst @ ''/'') @ e) False e)"

definition resolvePath :: "string \<Rightarrow> string \<Rightarrow> string" where
  "resolvePath base ref =
     (let full = (if ref = [] then base
                  else if hd ref \<noteq> CHR ''/'' then last_slash_prefix base @ ref
                  else ref)
      in if full = [] then []
         else
           (case resolve_elems (split_slash full) [] True [] of
              (dst, elem) \<Rightarrow>
                (let r = CHR ''/'' # dst @ (if elem = ''.'' \<or> elem = ''..'' then ''/'' else [])
                 in if length r > 1 \<and> r ! 1 = CHR ''/'' then tl r else r)))"

text \<open>\<open>u.ResolveReference(ref)\<close>.\<close>

definition net_url_ResolveReference :: "url \<Rightarrow> url \<Rightarrow> url" where
  "net_url_ResolveReference u ref =
     (let url = (if Scheme ref = [] then ref\<lparr>Scheme := Scheme u\<rparr> else ref)
      in if Scheme ref \<noteq> [] \<or> Host ref \<noteq> [] then url\<lparr>Path := resolvePath (Path ref) []\<rparr>
         else if Opaque ref \<noteq> [] then url\<lparr>Host := [], Path := []\<rparr>
         else
           (let url1 =
                  (if Path ref = [] \<and> \<not> ForceQuery ref \<and> RawQuery ref = []
                   then (if Fragment ref = []
                         then url\<lparr>RawQuery := RawQuery u, Fragment := Fragment u\<rparr>
                         else url\<lparr>RawQuery := RawQuery u\<rparr>)
                   else url)
            in if Path ref = [] \<and> Opaque u \<noteq> []
               then url1\<lparr>Opaque := Opaque u, Host := [], Path := []\<rparr>
               else url1\<lparr>Host := Host u, Path := resolvePath (Path u) (Path ref)\<rparr>))"

definition net_url :: urllib where
  "net_url = \<lparr>url_Parse = net_url_Parse, url_ResolveReference = net_url_ResolveReference,
     url_String = net_url_String\<rparr>"

section \<open>mirror/types.go\<close>

text \<open>
  The structs \<open>Config\<close> and \<open>Resource\<close>. Both have a field \<open>URL\<close>; the one of \<open>Resource\<close>
  is \<open>ResURL\<close> here.
\<close>

record Config =
  URL :: string
  RejectTypes :: "string list"
  ExcludePaths :: "string list"
  ConvertLinks :: bool
  OutputDir :: string

record Resource =
  ResURL :: string
  LocalPath :: string
  ContentType :: string
  IsHTML :: bool

text \<open>
  \<open>Queue\<close>: the buffered channel \<open>Resources\<close> is the list of the resources it holds,
  oldest first, with the flag \<open>Closed\<close> of the channel; \<open>NewQueue\<close> makes it with room
  for 1000 resources. \<open>Processed\<close> is the map \<open>map[string]bool\<close>. \<open>ProcessLock\<close> has no
  counterpart: one goroutine at a time works on the queue.
\<close>

record Queue =
  Resources :: "Resource list"
  Closed :: bool
  Processed :: "string \<rightharpoonup> bool"

definition Resources_cap :: nat where
  "Resources_cap = 1000"

definition NewQueue :: Queue where
  "NewQueue = \<lparr>Resources = [], Closed = False, Processed = Map.empty\<rparr>"

text \<open>Reading \<open>Processed[k]\<close>: a missing key reads as \<open>false\<close>.\<close>

definition is_processed :: "Queue \<Rightarrow> string \<Rightarrow> bool" where
  "is_processed q k = (case Processed q k of None \<Rightarrow> False | Some b \<Rightarrow> b)"

text \<open>
  What a goroutine does at a channel operation. A send on a closed channel panics; a
  send on a full buffer blocks, and so does a receive on an empty open channel. The
  goroutine that works on the queue is the only one that sends to, receives from or
  closes \<open>Resources\<close> once \<open>Start\<close> waits, so a blocked operation never resumes.
\<close>

datatype 'a step = Proceed 'a | Blocks | Panics

definition send :: "Queue \<Rightarrow> Resource \<Rightarrow> Queue step" where
  "send q r =
     (if Closed q then Panics
      else if length (Resources q) < Resources_cap then Proceed (q\<lparr>Resources := Resources q @ [r]\<rparr>)
      else Blocks)"

section \<open>The parsed HTML document\<close>

text \<open>
  \<open>html.Node\<close> as a tree: the type and data of the node, its attributes in order, and
  its children from \<open>FirstChild\<close> along \<open>NextSibling\<close>.
\<close>

datatype NodeType =
  ErrorNode | TextNode | DocumentNode | ElementNode | CommentNode | DoctypeNode | RawNode

record Attribute =
  Namespace :: string
  Key :: string
  Val :: string

datatype Node = Node NodeType string "Attribute list" "Node list"

text \<open>The \<open>switch n.Data\<close> of \<open>Parse\<close> and of \<open>convertNode\<close>: the attribute that holds the link.\<close>

definition link_attr :: "string \<Rightarrow> string" where
  "link_attr d =
     (if d = ''a'' \<or> d = ''link'' then ''href''
      else if d = ''img'' \<or> d = ''script'' then ''src''
      else [])"

section \<open>mirror/parser.go\<close>

text \<open>
  The struct \<open>Parser\<close>. Its field \<open>queue\<close> points to the queue of the mirror, which the
  functions below take and return.
\<close>

record Parser =
  baseURL :: url
  config :: Config

text \<open>
  \<open>processURL\<close>, first part: empty values and anchors are skipped, the value is parsed,
  and a relative URL is resolved against the base URL. \<open>None\<close> is an early return.
\<close>

definition resolve_link :: "urllib \<Rightarrow> Parser \<Rightarrow> string \<Rightarrow> url option" where
  "resolve_link L p rawURL =
     (if rawURL = [] \<or> HasPrefix rawURL ''#'' then None
      else
        (case url_Parse L rawURL of
           None \<Rightarrow> None
         | Some u \<Rightarrow> Some (if \<not> IsAbs u then url_ResolveReference L (baseURL p) u else u)))"

text \<open>The loop over \<open>ExcludePaths\<close>.\<close>

definition excluded :: "Parser \<Rightarrow> url \<Rightarrow> bool" where
  "excluded p u = list_ex (\<lambda>exclude. HasPrefix (Path u) exclude) (ExcludePaths (config p))"

text \<open>
  The variable \<open>ext\<close>: the lower-cased extension, without its dot when it is not empty;
  and the loop over \<open>RejectTypes\<close>, which runs only when \<open>path.Ext\<close> is not empty.
\<close>

definition link_ext :: "url \<Rightarrow> string" where
  "link_ext u = (let ext = ToLower (Ext (Path u)) in if ext \<noteq> [] then drop 1 ext else ext)"

definition rejected :: "Parser \<Rightarrow> url \<Rightarrow> bool" where
  "rejected p u =
     (ToLower (Ext (Path u)) \<noteq> [] \<and> list_ex (\<lambda>reject. link_ext u = reject) (RejectTypes (config p)))"

text \<open>The resource that \<open>processURL\<close> builds for a URL.\<close>

definition link_resource :: "urllib \<Rightarrow> Parser \<Rightarrow> url \<Rightarrow> Resource" where
  "link_resource L p u =
     \<lparr>ResURL = url_String L u,
      LocalPath = Join [OutputDir (config p), Host u, Path u],
      ContentType = [],
      IsHTML = (link_ext u = ''html'' \<or> link_ext u = ''htm'')\<rparr>"

text \<open>
  \<open>processURL\<close> on the queue. Every early return leaves the queue as it is. The check of
  \<open>Processed\<close> under the read lock and again under the write lock is one check here.
\<close>

definition Parser_processURL :: "urllib \<Rightarrow> Parser \<Rightarrow> string \<Rightarrow> Queue \<Rightarrow> Queue step" where
  "Parser_processURL L p rawURL q =
     (case resolve_link L p rawURL of
        None \<Rightarrow> Proceed q
      | Some u \<Rightarrow>
          if Host u \<noteq> Host (baseURL p) then Proceed q
          else if excluded p u then Proceed q
          else if rejected p u then Proceed q
          else if is_processed q (url_String L u) then Proceed q
          else send (q\<lparr>Processed := (Processed q)(url_String L u \<mapsto> True)\<rparr>)
                 (link_resource L p u))"

text \<open>
  \<open>Parse\<close>: the walk \<open>f\<close> over the document. At an element with a link attribute, the
  first attribute with that key is processed (the loop breaks after it); then the
  children follow in order. A step that blocks or panics ends the walk.
\<close>

fun first_attr :: "string \<Rightarrow> Attribute list \<Rightarrow> string option" where
  "first_attr attr [] = None"
| "first_attr attr (a # as) = (if Key a = attr then Some (Val a) else first_attr attr as)"

fun Parse_f :: "urllib \<Rightarrow> Parser \<Rightarrow> Node \<Rightarrow> Queue \<Rightarrow> Queue step"
  and Parse_children :: "urllib \<Rightarrow> Parser \<Rightarrow> Node list \<Rightarrow> Queue \<Rightarrow> Queue step" where
  "Parse_f L p (Node t d attrs cs) q =
     (case (if t = ElementNode \<and> link_attr d \<noteq> []
            then (case first_attr (link_attr d) attrs of
                    None \<Rightarrow> Proceed q
                  | Some v \<Rightarrow> Parser_processURL L p v q)
            else Proceed q) of
        Proceed q1 \<Rightarrow> Parse_children L p cs q1
      | Blocks \<Rightarrow> Blocks
      | Panics \<Rightarrow> Panics)"
| "Parse_children L p [] q = Proceed q"
| "Parse_children L p (c # cs) q =
     (case Parse_f L p c q of
        Proceed q1 \<Rightarrow> Parse_children L p cs q1
      | Blocks \<Rightarrow> Blocks
      | Panics \<Rightarrow> Panics)"

section \<open>mirror/converter.go\<close>

text \<open>The struct \<open>Converter\<close>, with its fields \<open>baseURL\<close> and \<open>config\<close>.\<close>

record Converter =
  conv_baseURL :: url
  conv_config :: Config

text \<open>\<open>convertPath\<close>: the new value of the attribute, \<open>""\<close> to leave it alone.\<close>

definition convertPath :: "urllib \<Rightarrow> Converter \<Rightarrow> string \<Rightarrow> string \<Rightarrow> string" where
  "convertPath L c rawURL basePath =
     (if rawURL = [] \<or> HasPrefix rawURL ''#'' then []
      else
        (case url_Parse L rawURL of
           None \<Rightarrow> []
         | Some u \<Rightarrow>
             if IsAbs u then
               (if Host u \<noteq> Host (conv_baseURL c) then []
                else Join [OutputDir (conv_config c), Host u, Path u])
             else Join [basePath, Path u]))"

text \<open>
  \<open>convertNode\<close>: at an element with a link attribute, every attribute with that key
  gets the value of \<open>convertPath\<close> unless that is empty; then the children are converted.
\<close>

definition convert_attr :: "urllib \<Rightarrow> Converter \<Rightarrow> string \<Rightarrow> string \<Rightarrow> Attribute \<Rightarrow> Attribute" where
  "convert_attr L c basePath attr a =
     (if Key a = attr
      then (let newPath = convertPath L c (Val a) basePath
            in if newPath \<noteq> [] then a\<lparr>Val := newPath\<rparr> else a)
      else a)"

fun convertNode :: "urllib \<Rightarrow> Converter \<Rightarrow> Node \<Rightarrow> string \<Rightarrow> Node" where
  "convertNode L c (Node t d attrs cs) basePath =
     Node t d
       (if t = ElementNode \<and> link_attr d \<noteq> []
        then map (convert_attr L c basePath (link_attr d)) attrs
        else attrs)
       (map (\<lambda>child. convertNode L c child basePath) cs)"

section \<open>The world outside the program\<close>

text \<open>
  The files on disk are a map from paths to contents. Everything else the program meets
  is a parameter: the answer of the HTTP client for a URL, which file operations fail,
  and the functions \<open>html.Parse\<close> and \<open>html.Render\<close> of \<open>golang.org/x/net/html\<close>.
  A response carries its status code, the bytes that reading its body delivers, and
  whether that reading ends in an error instead of the end of the body.
  \<open>Write_limit W path = Some n\<close> says that writing to the file fails once \<open>n\<close> bytes are
  written.
\<close>

type_synonym files = "string \<rightharpoonup> string"

record Response =
  StatusCode :: int
  Body :: string
  BodyFails :: bool

record world =
  MkdirAll_fails :: "string \<Rightarrow> bool"
  client_Get :: "string \<Rightarrow> Response option"
  Create_fails :: "string \<Rightarrow> bool"
  Write_limit :: "string \<Rightarrow> nat option"
  Open_fails :: "string \<Rightarrow> bool"
  html_Parse :: "string \<Rightarrow> Node option"
  html_Render :: "Node \<Rightarrow> string option"

datatype io_error =
  MkdirError | GetError | StatusError int | CreateError | CopyError
  | OpenError | ParseError | RenderError | WriteError

text \<open>
  Writing \<open>data\<close> to the file just created or truncated at \<open>path\<close>: the bytes that reach
  the file, and whether the write failed. This is what \<open>io.Copy\<close> and \<open>os.WriteFile\<close> leave
  behind.
\<close>

definition write_file :: "world \<Rightarrow> string \<Rightarrow> string \<Rightarrow> files \<Rightarrow> bool \<times> files" where
  "write_file W path data fs =
     (case Write_limit W path of
        None \<Rightarrow> (False, fs(path \<mapsto> data))
      | Some n \<Rightarrow>
          if n < length data then (True, fs(path \<mapsto> take n data))
          else (False, fs(path \<mapsto> data)))"

text \<open>\<open>os.Open\<close> followed by reading the file, and \<open>os.ReadFile\<close>.\<close>

definition read_file :: "world \<Rightarrow> string \<Rightarrow> files \<Rightarrow> string option" where
  "read_file W path fs = (if Open_fails W path then None else fs path)"

section \<open>mirror/downloader.go\<close>

text \<open>
  \<open>downloadResource\<close>: the error it returns (\<open>None\<close> for \<open>nil\<close>) and the files afterwards.
  \<open>os.Create\<close> truncates the file, and \<open>io.Copy\<close> writes what it has read from the body
  until reading or writing fails.
\<close>

definition downloadResource :: "world \<Rightarrow> Resource \<Rightarrow> files \<Rightarrow> io_error option \<times> files" where
  "downloadResource W resource fs =
     (if MkdirAll_fails W (Dir (LocalPath resource)) then (Some MkdirError, fs)
      else
        (case client_Get W (ResURL resource) of
           None \<Rightarrow> (Some GetError, fs)
         | Some resp \<Rightarrow>
             if StatusCode resp \<noteq> 200 then (Some (StatusError (StatusCode resp)), fs)
             else if Create_fails W (LocalPath resource) then (Some CreateError, fs)
             else
               (case write_file W (LocalPath resource) (Body resp)
                       (fs(LocalPath resource \<mapsto> [])) of
                  (failed, fs1) \<Rightarrow>
                    if failed \<or> BodyFails resp then (Some CopyError, fs1)
                    else (None, fs1))))"

section \<open>mirror/converter.go: ConvertLinks\<close>

definition Converter_ConvertLinks ::
  "urllib \<Rightarrow> world \<Rightarrow> Converter \<Rightarrow> string \<Rightarrow> files \<Rightarrow> io_error option \<times> files" where
  "Converter_ConvertLinks L W c filePath fs =
     (case read_file W filePath fs of
        None \<Rightarrow> (Some OpenError, fs)
      | Some content \<Rightarrow>
          (case html_Parse W content of
             None \<Rightarrow> (Some ParseError, fs)
           | Some doc \<Rightarrow>
               (case html_Render W (convertNode L c doc (Dir filePath)) of
                  None \<Rightarrow> (Some RenderError, fs)
                | Some buf \<Rightarrow>
                    if Create_fails W filePath then (Some WriteError, fs)
                    else
                      (case write_file W filePath buf (fs(filePath \<mapsto> [])) of
                         (failed, fs1) \<Rightarrow> (if failed then Some WriteError else None, fs1)))))"

section \<open>mirror/parser.go: Parse\<close>

text \<open>\<open>Parse\<close> on the contents of the reader: a document that does not parse adds nothing.\<close>

definition Parser_Parse :: "urllib \<Rightarrow> world \<Rightarrow> Parser \<Rightarrow> string \<Rightarrow> Queue \<Rightarrow> Queue step" where
  "Parser_Parse L W p content q =
     (case html_Parse W content of
        None \<Rightarrow> Proceed q
      | Some doc \<Rightarrow> Parse_f L p doc q)"

section \<open>mirror/mirror.go\<close>

text \<open>
  The struct \<open>Mirror\<close>. The downloader holds nothing but the configuration and the HTTP
  client, which is part of the world; the queue and the files are the state that
  \<open>Start\<close> works on.
\<close>

record Mirror =
  mconfig :: Config
  parser :: Parser
  converter :: Converter

text \<open>
  \<open>New\<close>: the base URL is parsed, an empty \<open>OutputDir\<close> becomes the host, and the parser and
  the converter share the configuration and the fresh queue.
\<close>

definition New :: "urllib \<Rightarrow> Config \<Rightarrow> (Mirror \<times> Queue) option" where
  "New L cfg =
     (case url_Parse L (URL cfg) of
        None \<Rightarrow> None
      | Some b \<Rightarrow>
          (let cfg1 = (if OutputDir cfg = [] then cfg\<lparr>OutputDir := Host b\<rparr> else cfg)
           in Some (\<lparr>mconfig = cfg1,
                      parser = \<lparr>baseURL = b, config = cfg1\<rparr>,
                      converter = \<lparr>conv_baseURL = b, conv_config = cfg1\<rparr>\<rparr>,
                    NewQueue)))"

text \<open>The initial resource of \<open>Start\<close>.\<close>

definition initialResource :: "Mirror \<Rightarrow> Resource" where
  "initialResource m =
     \<lparr>ResURL = URL (mconfig m),
      LocalPath = Join [OutputDir (mconfig m), Base (URL (mconfig m))],
      ContentType = [],
      IsHTML = True\<rparr>"

text \<open>
  How a call of \<open>Start\<close> ends. \<open>Start\<close> returns when \<open>wg.Wait()\<close> does, that is when the
  goroutine has left its loop and run its deferred calls. It does not return when the
  goroutine panics or blocks for ever (\<open>Deadlock\<close>): nothing else sends to the channel or
  closes it. \<open>OutOfFuel\<close> is the model's bound on the number of resources taken from the
  queue.
\<close>

datatype outcome = Returned | Deadlock | Panic | OutOfFuel

text \<open>
  The deferred \<open>close(m.queue.Resources)\<close>, run when the loop is left: closing a closed
  channel panics.
\<close>

definition deferred_close :: "Queue \<Rightarrow> outcome \<times> Queue" where
  "deferred_close q = (if Closed q then (Panic, q) else (Returned, q\<lparr>Closed := True\<rparr>))"

text \<open>
  The body of the loop for one resource taken from the channel: download; on an error
  \<open>continue\<close>; for HTML open the file, parse it for links and convert the links when
  asked to. Errors of these steps are printed only.
\<close>

definition process_resource ::
  "urllib \<Rightarrow> world \<Rightarrow> Mirror \<Rightarrow> Resource \<Rightarrow> Queue \<times> files \<Rightarrow> (Queue \<times> files) step" where
  "process_resource L W m resource s =
     (case s of (q, fs) \<Rightarrow>
        (case downloadResource W resource fs of
           (Some err, fs1) \<Rightarrow> Proceed (q, fs1)
         | (None, fs1) \<Rightarrow>
             if IsHTML resource then
               (case read_file W (LocalPath resource) fs1 of
                  None \<Rightarrow> Proceed (q, fs1)
                | Some content \<Rightarrow>
                    (case Parser_Parse L W (parser m) content q of
                       Blocks \<Rightarrow> Blocks
                     | Panics \<Rightarrow> Panics
                     | Proceed q1 \<Rightarrow>
                         Proceed (q1,
                           if ConvertLinks (mconfig m)
                           then snd (Converter_ConvertLinks L W (converter m) (LocalPath resource) fs1)
                           else fs1)))
             else Proceed (q, fs1)))"

text \<open>
  \<open>for resource := range m.queue.Resources\<close>: a receive takes the oldest resource; on an
  empty channel it ends the loop when the channel is closed and blocks when it is open.
  With \<open>Deadlock\<close> or \<open>Panic\<close> inside the body, the state reported is the one in which
  the resource was taken.
\<close>

fun Start_loop ::
  "urllib \<Rightarrow> world \<Rightarrow> Mirror \<Rightarrow> nat \<Rightarrow> Queue \<times> files \<Rightarrow> outcome \<times> Queue \<times> files" where
  "Start_loop L W m 0 s = (OutOfFuel, s)"
| "Start_loop L W m (Suc n) s =
     (case s of (q, fs) \<Rightarrow>
        (case Resources q of
           [] \<Rightarrow>
             if Closed q then (case deferred_close q of (out, q1) \<Rightarrow> (out, q1, fs))
             else (Deadlock, q, fs)
         | resource # rest \<Rightarrow>
             (case process_resource L W m resource (q\<lparr>Resources := rest\<rparr>, fs) of
                Proceed s1 \<Rightarrow> Start_loop L W m n s1
              | Blocks \<Rightarrow> (Deadlock, q\<lparr>Resources := rest\<rparr>, fs)
              | Panics \<Rightarrow> (Panic, q\<lparr>Resources := rest\<rparr>, fs))))"

text \<open>
  \<open>Start\<close>: the initial resource is sent to the channel and its URL marked as processed;
  then the goroutine runs the loop and \<open>Start\<close> waits for it.
\<close>

definition Mirror_Start ::
  "urllib \<Rightarrow> world \<Rightarrow> Mirror \<Rightarrow> nat \<Rightarrow> Queue \<times> files \<Rightarrow> outcome \<times> Queue \<times> files" where
  "Mirror_Start L W m fuel s =
     (case s of (q, fs) \<Rightarrow>
        (case send q (initialResource m) of
           Blocks \<Rightarrow> (Deadlock, q, fs)
         | Panics \<Rightarrow> (Panic, q, fs)
         | Proceed q1 \<Rightarrow>
             Start_loop L W m fuel
               (q1\<lparr>Processed := (Processed q1)(URL (mconfig m) \<mapsto> True)\<rparr>, fs)))"

section \<open>Notions of the specification and examples\<close>

subsection \<open>Sequences of calls, filters and the canonical URL\<close>


text \<open>What \<open>processURL\<close> lets through: the three filters on the resolved URL.\<close>

definition passes :: "Parser \<Rightarrow> url \<Rightarrow> bool" where
  "passes p u = (Host u = Host (baseURL p) \<and> \<not> excluded p u \<and> \<not> rejected p u)"

text \<open>What a step left in the channel: the URLs, local paths and HTML flags, oldest first.\<close>

definition queued :: "Queue step \<Rightarrow> (string \<times> string \<times> bool) list" where
  "queued s =
     (case s of
        Proceed q \<Rightarrow> map (\<lambda>r. (ResURL r, LocalPath r, IsHTML r)) (Resources q)
      | Blocks \<Rightarrow> []
      | Panics \<Rightarrow> [])"


subsection \<open>Link values of a document\<close>

text \<open>
  The link values of a document, in the order in which \<open>convertNode\<close> meets them: at each
  element with a link attribute the values of all attributes with that key, then the
  values of the children.
\<close>

fun link_values :: "Node \<Rightarrow> string list" where
  "link_values (Node t d attrs cs) =
     (if t = ElementNode \<and> link_attr d \<noteq> []
      then map Val (filter (\<lambda>a. Key a = link_attr d) attrs)
      else [])
     @ concat (map link_values cs)"

text \<open>
  The values that \<open>convertPath\<close> declines: empty, an anchor, not parsable, or absolute on
  another host than the base URL's.
\<close>

definition untouched :: "urllib \<Rightarrow> Converter \<Rightarrow> string \<Rightarrow> bool" where
  "untouched L c v =
     (v = [] \<or> HasPrefix v ''#'' \<or>
      (case url_Parse L v of
         None \<Rightarrow> True
       | Some u \<Rightarrow> IsAbs u \<and> Host u \<noteq> Host (conv_baseURL c)))"

text \<open>
  Where a link value that is not declined points after the conversion: a path made of
  the parsed URL alone, under the output directory and the host for an absolute URL, and
  under the directory of the file for a relative one.
\<close>

definition mirror_path :: "urllib \<Rightarrow> Converter \<Rightarrow> string \<Rightarrow> string \<Rightarrow> string" where
  "mirror_path L c basePath v =
     (case url_Parse L v of
        None \<Rightarrow> []
      | Some u \<Rightarrow>
          if IsAbs u then Join [OutputDir (conv_config c), Host u, Path u]
          else Join [basePath, Path u])"

text \<open>The value of a link attribute after \<open>convertNode\<close>.\<close>

definition converted :: "urllib \<Rightarrow> Converter \<Rightarrow> string \<Rightarrow> string \<Rightarrow> string" where
  "converted L c basePath v =
     (if convertPath L c v basePath \<noteq> [] then convertPath L c v basePath else v)"

text \<open>An element with one attribute and no children.\<close>

definition link_elem :: "string \<Rightarrow> string \<Rightarrow> string \<Rightarrow> Node" where
  "link_elem tag attr v = Node ElementNode tag [\<lparr>Namespace = [], Key = attr, Val = v\<rparr>] []"

text \<open>A mirror as \<open>New\<close> builds it: parser and converter share base URL and configuration.\<close>

definition shares :: "Parser \<Rightarrow> Converter \<Rightarrow> bool" where
  "shares p c = (conv_baseURL c = baseURL p \<and> conv_config c = config p)"

text \<open>
  Ordinary path elements: not empty, not \<open>.\<close> or \<open>..\<close>, and without a slash. A relative
  path of ordinary elements is \<open>join_slash\<close> of a non-empty list of them.
\<close>

definition plain_elem :: "string \<Rightarrow> bool" where
  "plain_elem e = (e \<noteq> [] \<and> e \<noteq> ''.'' \<and> e \<noteq> ''..'' \<and> CHR ''/'' \<notin> set e)"

definition plain_path :: "string list \<Rightarrow> bool" where
  "plain_path es = (es \<noteq> [] \<and> list_all plain_elem es)"

text \<open>The library parses \<open>s\<close> as a relative URL with the path \<open>p\<close>.\<close>

definition parses_relative :: "urllib \<Rightarrow> string \<Rightarrow> string \<Rightarrow> bool" where
  "parses_relative L s p =
     (case url_Parse L s of None \<Rightarrow> False | Some u \<Rightarrow> \<not> IsAbs u \<and> Path u = p)"

text \<open>
  A relative link \<open>v\<close> with the path \<open>xs\<close> in a file of the directory \<open>bs\<close>, both of
  ordinary elements: \<open>v\<close> is not an anchor and parses as a relative URL with that path, and
  the path below the directory is not an anchor either and parses as a relative URL with
  itself as path, as \<open>url.Parse\<close> does for such paths when no colon stands in the first
  element.
\<close>

definition relative_link :: "urllib \<Rightarrow> string list \<Rightarrow> string list \<Rightarrow> string \<Rightarrow> bool" where
  "relative_link L bs xs v =
     (plain_path bs \<and> plain_path xs \<and> v \<noteq> [] \<and> \<not> HasPrefix v ''#'' \<and>
      parses_relative L v (join_slash xs) \<and>
      \<not> HasPrefix (join_slash (bs @ xs)) ''#'' \<and>
      parses_relative L (join_slash (bs @ xs)) (join_slash (bs @ xs)))"

subsection \<open>Writes that fall short\<close>

text \<open>
  Whether writing \<open>data\<close> to \<open>path\<close> fails before all of it is written, and the bytes
  that are in the file after the write, failed or not.
\<close>

definition short_write :: "world \<Rightarrow> string \<Rightarrow> string \<Rightarrow> bool" where
  "short_write W path data =
     (case Write_limit W path of None \<Rightarrow> False | Some n \<Rightarrow> n < length data)"

definition written_bytes :: "world \<Rightarrow> string \<Rightarrow> string \<Rightarrow> string" where
  "written_bytes W path data =
     (case Write_limit W path of None \<Rightarrow> data | Some n \<Rightarrow> take n data)"

subsection \<open>The example site\<close>

text \<open>
  The example of the specification: the seed \<open>http://example.test/index.html\<close>, mirrored
  into \<open>out\<close>, with \<open>jpg\<close> rejected and \<open>/private\<close> excluded.
\<close>

definition example_config :: Config where
  "example_config =
     \<lparr>URL = ''http://example.test/index.html'', RejectTypes = [''jpg''],
      ExcludePaths = [''/private''], ConvertLinks = True, OutputDir = ''out''\<rparr>"

definition example_base :: url where
  "example_base =
     \<lparr>Scheme = ''http'', Opaque = [], Host = ''example.test'', Path = ''/index.html'',
      OmitHost = False, ForceQuery = False, RawQuery = [], Fragment = []\<rparr>"

definition example_mirror :: Mirror where
  "example_mirror =
     \<lparr>mconfig = example_config,
      parser = \<lparr>baseURL = example_base, config = example_config\<rparr>,
      converter = \<lparr>conv_baseURL = example_base, conv_config = example_config\<rparr>\<rparr>"

text \<open>
  The site: the index page links to \<open>a.html\<close>, \<open>style.css\<close>, a page on another host and a
  rejected image; \<open>a.html\<close> links back to the index page. No operation on files fails.
\<close>

definition index_body :: string where
  "index_body =
     ''<a href=a.html><link href=style.css><a href=http://other.test/x.html><img src=img.jpg>''"

definition a_body :: string where
  "a_body = ''<a href=index.html>''"

definition page_doc :: "Node list \<Rightarrow> Node" where
  "page_doc links =
     Node DocumentNode [] []
       [Node ElementNode ''html'' []
          [Node ElementNode ''head'' [] [], Node ElementNode ''body'' [] links]]"

definition example_world :: world where
  "example_world =
     \<lparr>MkdirAll_fails = (\<lambda>_. False),
      client_Get =
        (\<lambda>u. if u = ''http://example.test/index.html''
               then Some \<lparr>StatusCode = 200, Body = index_body, BodyFails = False\<rparr>
             else if u = ''http://example.test/a.html''
               then Some \<lparr>StatusCode = 200, Body = a_body, BodyFails = False\<rparr>
             else if u = ''http://example.test/style.css''
               then Some \<lparr>StatusCode = 200, Body = ''body {}'', BodyFails = False\<rparr>
             else None),
      Create_fails = (\<lambda>_. False),
      Write_limit = (\<lambda>_. None),
      Open_fails = (\<lambda>_. False),
      html_Parse =
        (\<lambda>s. if s = index_body
               then Some (page_doc
                 [link_elem ''a'' ''href'' ''a.html'', link_elem ''link'' ''href'' ''style.css'',
                  link_elem ''a'' ''href'' ''http://other.test/x.html'',
                  link_elem ''img'' ''src'' ''img.jpg''])
             else if s = a_body then Some (page_doc [link_elem ''a'' ''href'' ''index.html''])
             else Some (page_doc [])),
      html_Render = (\<lambda>d. Some ''<html><head></head><body></body></html>'')\<rparr>"

text \<open>
  A world in which the client answers for \<open>a.html\<close> alone, with the given status and
  body, and the resource that \<open>processURL\<close> builds for that page.
\<close>

definition page_resource :: Resource where
  "page_resource =
     \<lparr>ResURL = ''http://example.test/a.html'', LocalPath = ''out/example.test/a.html'',
      ContentType = [], IsHTML = True\<rparr>"

definition serving :: "int \<Rightarrow> string \<Rightarrow> bool \<Rightarrow> world" where
  "serving status body fails =
     \<lparr>MkdirAll_fails = (\<lambda>_. False),
      client_Get = (\<lambda>u. if u = ''http://example.test/a.html''
                         then Some \<lparr>StatusCode = status, Body = body, BodyFails = fails\<rparr>
                         else None),
      Create_fails = (\<lambda>_. False),
      Write_limit = (\<lambda>_. None),
      Open_fails = (\<lambda>_. False),
      html_Parse = (\<lambda>_. None),
      html_Render = (\<lambda>_. None)\<rparr>"

section \<open>Properties of Start\<close>

lemma deferred_close_Closed: "Closed q \<Longrightarrow> fst (deferred_close q) = Panic"
  by (simp add: deferred_close_def)

lemma Start_loop_never_returns: "fst (Start_loop L W m n s) \<noteq> Returned"
proof (induction n arbitrary: s)
  case 0
  show ?case by simp
next
  case (Suc n)
  obtain q fs where s: "s = (q, fs)" by (cases s)
  show ?case
  proof (cases "Resources q")
    case Nil
    show ?thesis
    proof (cases "Closed q")
      case True
      then show ?thesis using Nil s deferred_close_Closed [of q]
        by (auto split: prod.splits)
    next
      case False
      then show ?thesis using Nil s by simp
    qed
  next
    case (Cons resource rest)
    show ?thesis
    proof (cases "process_resource L W m resource (q\<lparr>Resources := rest\<rparr>, fs)")
      case (Proceed s1)
      then show ?thesis using Cons s Suc.IH [of s1] by simp
    next
      case Blocks
      then show ?thesis using Cons s by simp
    next
      case Panics
      then show ?thesis using Cons s by simp
    qed
  qed
qed

text \<open>
  Claim C1 says that a crawl started by \<open>Mirror.Start\<close> ends: the loop over the queue
  terminates and \<open>Start\<close> returns. In the code the loop \<open>for resource := range
  m.queue.Resources\<close> ends only when the channel is closed, and the only \<open>close\<close> is the
  deferred one that runs after the loop. So for every library, world, mirror, queue and
  bound on the number of steps, \<open>Start\<close> does not return: the goroutine blocks on the
  empty channel, blocks on the full one, or panics.
\<close>

theorem Start_never_returns: "fst (Mirror_Start L W m fuel s) \<noteq> Returned"
proof -
  obtain q fs where s: "s = (q, fs)" by (cases s)
  show ?thesis
  proof (cases "send q (initialResource m)")
    case (Proceed q1)
    then show ?thesis using s Start_loop_never_returns by (simp add: Mirror_Start_def)
  next
    case Blocks
    then show ?thesis using s by (simp add: Mirror_Start_def)
  next
    case Panics
    then show ?thesis using s by (simp add: Mirror_Start_def)
  qed
qed

text \<open>
  On the example site the crawl fetches the three pages of the host, and then the
  goroutine blocks on the empty channel; three steps are not enough to get there.
\<close>

lemma example_crawl_deadlocks:
  "fst (Mirror_Start net_url example_world example_mirror 4 (NewQueue, Map.empty)) = Deadlock"
  by code_simp

lemma example_crawl_short:
  "fst (Mirror_Start net_url example_world example_mirror 3 (NewQueue, Map.empty)) = OutOfFuel"
  by code_simp

lemma example_crawl_files:
  "(case Mirror_Start net_url example_world example_mirror 4 (NewQueue, Map.empty) of
      (out, q, fs) \<Rightarrow>
        (out, Resources q,
         map (\<lambda>path. fs path \<noteq> None)
           [''out/index.html'', ''out/example.test/a.html'', ''out/example.test/style.css'',
            ''out/example.test/img.jpg'']))
   = (Deadlock, [], [True, True, True, False])"
  by code_simp

section \<open>Properties of processURL\<close>

lemma example_base_Parse: "net_url_Parse ''http://example.test/index.html'' = Some example_base"
  by code_simp

lemma example_New: "New net_url example_config = Some (example_mirror, NewQueue)"
proof -
  have "url_Parse net_url (URL example_config) = Some example_base"
    using example_base_Parse by (simp add: net_url_def example_config_def)
  then show ?thesis
    by (simp add: New_def example_mirror_def) (simp add: example_config_def)
qed

lemma processURL_cases:
  "Parser_processURL L p rawURL q =
     (case resolve_link L p rawURL of
        None \<Rightarrow> Proceed q
      | Some u \<Rightarrow>
          if passes p u \<and> \<not> is_processed q (url_String L u)
          then send (q\<lparr>Processed := (Processed q)(url_String L u \<mapsto> True)\<rparr>) (link_resource L p u)
          else Proceed q)"
  by (simp add: Parser_processURL_def passes_def split: option.splits)

lemma send_Proceed:
  "send q r = Proceed q1 \<Longrightarrow> q1 = q\<lparr>Resources := Resources q @ [r]\<rparr>"
  by (simp add: send_def split: if_splits)

lemma processURL_Proceed:
  assumes "\<not> Closed q" "length (Resources q) < Resources_cap"
  shows "\<exists>q1. Parser_processURL L p rawURL q = Proceed q1 \<and> \<not> Closed q1 \<and>
           length (Resources q1) \<le> Suc (length (Resources q))"
  using assms by (auto simp add: processURL_cases send_def split: option.splits)







text \<open>
  What is enqueued has passed the three filters as the code applies them, and what fails
  one of them is discarded.
\<close>

lemma processURL_enqueued_passes:
  assumes "Parser_processURL L p rawURL q = Proceed q1" and "q1 \<noteq> q"
  shows "\<exists>u. resolve_link L p rawURL = Some u \<and> passes p u"
  using assms by (auto simp add: processURL_cases split: option.splits if_splits)

lemma processURL_discards:
  assumes "resolve_link L p rawURL = Some u" "\<not> passes p u"
  shows "Parser_processURL L p rawURL q = Proceed q"
  using assms by (simp add: processURL_cases)

text \<open>
  Claim C4 says that a candidate whose extension matches an entry of the reject set
  under case-insensitive comparison is discarded. The code lower-cases the extension
  and compares it with the entries as they are: with the entry \<open>JPG\<close> the link
  \<open>/photo.JPG\<close> is enqueued.
\<close>

theorem processURL_reject_case:
  "queued (Parser_processURL net_url
      (parser example_mirror\<lparr>config := example_config\<lparr>RejectTypes := [''JPG'']\<rparr>\<rparr>)
      ''/photo.JPG'' NewQueue)
     = [(''http://example.test/photo.JPG'', ''out/example.test/photo.JPG'', False)]"
  by code_simp

text \<open>The extension that \<open>path.Ext\<close> returns is empty or starts with a dot.\<close>

lemma lower_byte_dot: "lower_byte CHR ''.'' = CHR ''.''"
  by (simp add: lower_byte_def)

lemma ext_scan_dot: "ext_scan s acc = [] \<or> hd (ext_scan s acc) = CHR ''.''"
  by (induction s arbitrary: acc) auto

lemma link_ext_eq:
  assumes "x \<noteq> []"
  shows "(link_ext u = x) = (ToLower (Ext (Path u)) = CHR ''.'' # x)"
proof (cases "Ext (Path u)")
  case Nil
  then show ?thesis using assms by (auto simp add: link_ext_def ToLower_def)
next
  case (Cons c cs)
  then have "c = CHR ''.''"
    using ext_scan_dot [of "rev (Path u)" "[]"] by (simp add: Ext_def)
  then show ?thesis using Cons by (auto simp add: link_ext_def ToLower_def lower_byte_dot)
qed

text \<open>
  Claim C8, as amended. When \<open>processURL\<close> enqueues a resource, that resource is the last
  of the channel and its \<open>IsHTML\<close> is true exactly when the lower-cased extension of the
  path is \<open>.html\<close> or \<open>.htm\<close>; a path without extension gets \<open>IsHTML = false\<close>.
\<close>

theorem processURL_IsHTML:
  assumes "Parser_processURL L p rawURL q = Proceed q1" and "q1 \<noteq> q"
  shows "\<exists>u. resolve_link L p rawURL = Some u \<and>
           Resources q1 = Resources q @ [link_resource L p u] \<and>
           IsHTML (link_resource L p u) =
             (ToLower (Ext (Path u)) = ''.html'' \<or> ToLower (Ext (Path u)) = ''.htm'')"
proof (cases "resolve_link L p rawURL")
  case None
  then show ?thesis using assms by (simp add: processURL_cases)
next
  case (Some u)
  have h: "IsHTML (link_resource L p u) =
             (ToLower (Ext (Path u)) = ''.html'' \<or> ToLower (Ext (Path u)) = ''.htm'')"
    by (simp add: link_resource_def link_ext_eq)
  have "send (q\<lparr>Processed := (Processed q)(url_String L u \<mapsto> True)\<rparr>) (link_resource L p u)
          = Proceed q1"
    using assms Some by (simp add: processURL_cases split: if_splits)
  from send_Proceed [OF this] have "Resources q1 = Resources q @ [link_resource L p u]"
    by simp
  with Some h show ?thesis by simp
qed

text \<open>On the example: \<open>docs/Guide.HTM\<close> is enqueued as HTML.\<close>

theorem processURL_IsHTML_witness:
  "\<exists>q1 u. Parser_processURL net_url (parser example_mirror) ''docs/Guide.HTM'' NewQueue = Proceed q1 \<and>
     q1 \<noteq> NewQueue \<and>
     resolve_link net_url (parser example_mirror) ''docs/Guide.HTM'' = Some u \<and>
     Resources q1 = Resources NewQueue @ [link_resource net_url (parser example_mirror) u] \<and>
     IsHTML (link_resource net_url (parser example_mirror) u) \<and>
     ToLower (Ext (Path u)) = ''.htm''"
proof -
  let ?p = "parser example_mirror"
  obtain q1 where q1: "Parser_processURL net_url ?p ''docs/Guide.HTM'' NewQueue = Proceed q1"
    using processURL_Proceed [of NewQueue net_url ?p "''docs/Guide.HTM''"]
    by (auto simp add: NewQueue_def Resources_cap_def)
  have "queued (Parser_processURL net_url ?p ''docs/Guide.HTM'' NewQueue)
          = [(''http://example.test/docs/Guide.HTM'', ''out/example.test/docs/Guide.HTM'', True)]"
    by code_simp
  then have ne: "q1 \<noteq> NewQueue" using q1 by (auto simp add: queued_def NewQueue_def)
  from processURL_IsHTML [OF q1 ne] obtain u where
    u: "resolve_link net_url ?p ''docs/Guide.HTM'' = Some u"
      "Resources q1 = Resources NewQueue @ [link_resource net_url ?p u]"
      "IsHTML (link_resource net_url ?p u) =
         (ToLower (Ext (Path u)) = ''.html'' \<or> ToLower (Ext (Path u)) = ''.htm'')"
    by blast
  have "resolve_link net_url ?p ''docs/Guide.HTM''
          = Some (example_base\<lparr>Path := ''/docs/Guide.HTM''\<rparr>)"
    by code_simp
  with u(1) have "u = example_base\<lparr>Path := ''/docs/Guide.HTM''\<rparr>" by simp
  moreover have "ToLower (Ext ''/docs/Guide.HTM'') = ''.htm''" by code_simp
  ultimately have "ToLower (Ext (Path u)) = ''.htm''" by simp
  with q1 ne u show ?thesis by auto
qed

text \<open>
  Claim C8 as stated fails: \<open>/about\<close> has no extension, passes the filters, and is
  enqueued with \<open>IsHTML = false\<close>.
\<close>

theorem processURL_extensionless_counterexample:
  "Ext ''/about'' = [] \<and>
   queued (Parser_processURL net_url (parser example_mirror) ''/about'' NewQueue)
     = [(''http://example.test/about'', ''out/example.test/about'', False)]"
  by code_simp

text \<open>
  Claim C3 says that a URL has one local path, the seed's being the one it would get as
  a link. \<open>Start\<close> stores the seed under \<open>OutputDir\<close> and the base name of the URL, while
  \<open>processURL\<close> puts the same URL under \<open>OutputDir\<close>, the host and the path.
\<close>

theorem seed_LocalPath_differs:
  "LocalPath (initialResource example_mirror) = ''out/index.html'' \<and>
   queued (Parser_processURL net_url (parser example_mirror) (URL (mconfig example_mirror)) NewQueue)
     = [(''http://example.test/index.html'', ''out/example.test/index.html'', True)]"
  by code_simp

section \<open>Properties of convertNode\<close>

lemma convert_attr_Key: "Key (convert_attr L c basePath attr a) = Key a"
  by (simp add: convert_attr_def Let_def)

lemma convert_attr_Val:
  "Val (convert_attr L c basePath attr a) =
     (if Key a = attr then converted L c basePath (Val a) else Val a)"
  by (simp add: convert_attr_def converted_def Let_def)

lemma convert_attr_id:
  "(convert_attr L c basePath attr a = a) =
     (Key a = attr \<longrightarrow> converted L c basePath (Val a) = Val a)"
proof -
  have "(a\<lparr>Val := x\<rparr> = a) = (x = Val a)" for x
    by (cases a) auto
  then show ?thesis by (auto simp add: convert_attr_def converted_def Let_def)
qed

lemma link_attrs_converted:
  "map Val (filter (\<lambda>a. Key a = attr) (map (convert_attr L c basePath attr) attrs)) =
     map (converted L c basePath) (map Val (filter (\<lambda>a. Key a = attr) attrs))"
  by (induction attrs) (simp_all add: convert_attr_Key convert_attr_Val)

lemma link_values_converted:
  "link_values (convertNode L c n basePath) = map (converted L c basePath) (link_values n)"
proof (induction n)
  case (Node t d attrs cs)
  have kids: "concat (map (\<lambda>child. link_values (convertNode L c child basePath)) cs) =
          map (converted L c basePath) (concat (map link_values cs))"
    using Node.IH by (induction cs) simp_all
  show ?case
    by (simp add: link_attrs_converted kids comp_def)
qed

lemma map_fixed: "(map f xs = xs) = (\<forall>x\<in>set xs. f x = x)"
  by (induction xs) auto

lemma convertNode_fixed:
  "(convertNode L c n basePath = n) =
     (\<forall>v\<in>set (link_values n). converted L c basePath v = v)"
proof (induction n)
  case (Node t d attrs cs)
  have kids: "(map (\<lambda>child. convertNode L c child basePath) cs = cs) =
          (\<forall>v\<in>set (concat (map link_values cs)). converted L c basePath v = v)"
    using Node.IH by (auto simp add: map_fixed)
  have own: "(map (convert_attr L c basePath attr) attrs = attrs) =
          (\<forall>v\<in>set (map Val (filter (\<lambda>a. Key a = attr) attrs)). converted L c basePath v = v)"
    for attr
    by (auto simp add: map_fixed convert_attr_id)
  show ?case
  proof (cases "t = ElementNode \<and> link_attr d \<noteq> []")
    case True
    then show ?thesis using kids own [of "link_attr d"] by (simp add: ball_Un)
  next
    case False
    then show ?thesis using kids by auto
  qed
qed

lemma converted_cases:
  "converted L c basePath v =
     (if untouched L c v \<or> mirror_path L c basePath v = [] then v
      else mirror_path L c basePath v)"
  by (auto simp add: converted_def convertPath_def untouched_def mirror_path_def
      split: option.splits)

lemma New_shares: "New L cfg = Some (m, q) \<Longrightarrow> shares (parser m) (converter m)"
  by (auto simp add: New_def shares_def Let_def split: option.splits)





text \<open>
  For values that are not absolute URLs, \<open>convertPath\<close> and \<open>processURL\<close> do not agree: a
  link from the root of the site in a page of a subdirectory, and a link to another host
  without a scheme.
\<close>

lemma convertPath_differs_from_processURL:
  "convertPath net_url (converter example_mirror) ''/a.html'' ''out/example.test/sub''
     = ''out/example.test/sub/a.html'' \<and>
   queued (Parser_processURL net_url (parser example_mirror) ''/a.html'' NewQueue)
     = [(''http://example.test/a.html'', ''out/example.test/a.html'', True)] \<and>
   convertPath net_url (converter example_mirror) ''//other.test/x.html'' ''out/example.test''
     = ''out/example.test/x.html'' \<and>
   queued (Parser_processURL net_url (parser example_mirror) ''//other.test/x.html'' NewQueue) = []"
  by code_simp

text \<open>
  Paths of ordinary elements: \<open>path.Clean\<close> leaves them as they are, and \<open>path.Join\<close> of two
  of them is the one below the other.
\<close>

lemma split_slash_no_slash: "CHR ''/'' \<notin> set e \<Longrightarrow> split_slash e = [e]"
  by (induction e) auto

lemma split_slash_append:
  "CHR ''/'' \<notin> set e \<Longrightarrow> split_slash (e @ CHR ''/'' # r) = e # split_slash r"
  by (induction e) auto

lemma split_join_slash:
  "es \<noteq> [] \<Longrightarrow> list_all (\<lambda>e. CHR ''/'' \<notin> set e) es \<Longrightarrow> split_slash (join_slash es) = es"
proof (induction es rule: join_slash.induct)
  case 1
  then show ?case by simp
next
  case (2 e)
  then show ?case by (simp add: split_slash_no_slash)
next
  case (3 e v va)
  then show ?case by (simp add: split_slash_append)
qed

lemma join_slash_append:
  "bs \<noteq> [] \<Longrightarrow> xs \<noteq> [] \<Longrightarrow> join_slash bs @ CHR ''/'' # join_slash xs = join_slash (bs @ xs)"
proof (induction bs rule: join_slash.induct)
  case 1
  then show ?case by simp
next
  case (2 e)
  then show ?case by (cases xs) simp_all
next
  case (3 e v va)
  then show ?case by simp
qed

lemma clean_elems_plain:
  "list_all plain_elem es \<Longrightarrow> clean_elems rooted es out = rev es @ out"
  by (induction es arbitrary: out) (auto simp add: plain_elem_def)

lemma plain_no_slash: "list_all plain_elem es \<Longrightarrow> list_all (\<lambda>e. CHR ''/'' \<notin> set e) es"
  by (induction es) (auto simp add: plain_elem_def)

lemma join_slash_plain_hd:
  assumes "plain_path es"
  shows "join_slash es \<noteq> [] \<and> hd (join_slash es) \<noteq> CHR ''/''"
proof (cases es)
  case Nil
  then show ?thesis using assms by (simp add: plain_path_def)
next
  case (Cons e rest)
  then have e: "e \<noteq> []" "CHR ''/'' \<notin> set e" using assms by (auto simp add: plain_path_def plain_elem_def)
  then have "hd e \<noteq> CHR ''/''" by (cases e) auto
  then show ?thesis using Cons e by (cases rest) auto
qed

lemma Clean_plain:
  assumes "plain_path es"
  shows "Clean (join_slash es) = join_slash es"
proof -
  have a: "list_all plain_elem es" "es \<noteq> []" using assms by (auto simp add: plain_path_def)
  have s: "split_slash (join_slash es) = es"
    using split_join_slash [OF a(2) plain_no_slash [OF a(1)]] .
  show ?thesis
    using join_slash_plain_hd [OF assms] a(2)
    by (simp add: Clean_def s clean_elems_plain [OF a(1)] Let_def)
qed

lemma plain_path_append: "plain_path bs \<Longrightarrow> plain_path xs \<Longrightarrow> plain_path (bs @ xs)"
  by (simp add: plain_path_def)

lemma Join_plain:
  assumes "plain_path bs" "plain_path xs"
  shows "Join [join_slash bs, join_slash xs] = join_slash (bs @ xs)"
proof -
  have ne: "join_slash bs \<noteq> []" using join_slash_plain_hd [OF assms(1)] by simp
  have "Join [join_slash bs, join_slash xs] = Clean (join_slash bs @ CHR ''/'' # join_slash xs)"
    using ne by (simp add: Join_def)
  also have "\<dots> = Clean (join_slash (bs @ xs))"
    using assms by (simp add: join_slash_append plain_path_def)
  also have "\<dots> = join_slash (bs @ xs)"
    using Clean_plain [OF plain_path_append [OF assms]] .
  finally show ?thesis .
qed

lemma join_slash_prefixed_differs:
  assumes "plain_path bs" "plain_path xs"
  shows "join_slash (bs @ bs @ xs) \<noteq> join_slash (bs @ xs)"
proof
  assume eq: "join_slash (bs @ bs @ xs) = join_slash (bs @ xs)"
  have p1: "plain_path (bs @ bs @ xs)" "plain_path (bs @ xs)"
    using assms by (simp_all add: plain_path_def)
  have "split_slash (join_slash (bs @ bs @ xs)) = bs @ bs @ xs"
    using p1(1) split_join_slash [of "bs @ bs @ xs"] plain_no_slash [of "bs @ bs @ xs"]
    by (simp add: plain_path_def)
  moreover have "split_slash (join_slash (bs @ xs)) = bs @ xs"
    using p1(2) split_join_slash [of "bs @ xs"] plain_no_slash [of "bs @ xs"]
    by (simp add: plain_path_def)
  ultimately have "bs @ bs @ xs = bs @ xs" using eq by simp
  then have "length (bs @ bs @ xs) = length (bs @ xs)" by simp
  then show False using assms(1) by (simp add: plain_path_def)
qed

lemma converted_relative:
  assumes "plain_path bs" "plain_path xs" "v \<noteq> []" "\<not> HasPrefix v ''#''"
    "parses_relative L v (join_slash xs)"
  shows "converted L c (join_slash bs) v = join_slash (bs @ xs)"
proof -
  obtain u where u: "url_Parse L v = Some u" "\<not> IsAbs u" "Path u = join_slash xs"
    using assms(5) by (auto simp add: parses_relative_def split: option.splits)
  have "convertPath L c v (join_slash bs) = join_slash (bs @ xs)"
    using assms(3,4) u by (simp add: convertPath_def Join_plain [OF assms(1,2)])
  moreover have "join_slash (bs @ xs) \<noteq> []"
    using join_slash_plain_hd [OF plain_path_append [OF assms(1,2)]] by simp
  ultimately show ?thesis by (simp add: converted_def)
qed

lemma untouched_converted: "untouched L c v \<Longrightarrow> converted L c basePath v = v"
  by (simp add: converted_cases)

text \<open>
  Claim C6, as amended. \<open>convertNode\<close> is idempotent on the link values that \<open>convertPath\<close>
  declines and not on relative links. A document whose link values are all declined
  (empty, an anchor, not parsable, or absolute on another host) is left as it is by
  every pass. A relative link with the path \<open>xs\<close> of ordinary elements, in a file of the
  directory \<open>bs\<close> of ordinary elements, becomes the path \<open>bs/xs\<close> in the first pass and the
  path \<open>bs/bs/xs\<close> in the second, so the second pass changes every converted document
  that has such a link. This is for every library that parses \<open>bs/xs\<close> as a relative
  URL with itself as path, as \<open>url.Parse\<close> does for a path without escapes, query or
  fragment and without a colon in its first element.
\<close>

theorem convertNode_second_pass:
  "((\<forall>v\<in>set (link_values n). untouched L c v) \<longrightarrow> convertNode L c n basePath = n) \<and>
   (relative_link L bs xs v \<and> v \<in> set (link_values n) \<longrightarrow>
      converted L c (join_slash bs) v = join_slash (bs @ xs) \<and>
      converted L c (join_slash bs) (join_slash (bs @ xs)) = join_slash (bs @ bs @ xs) \<and>
      convertNode L c (convertNode L c n (join_slash bs)) (join_slash bs)
        \<noteq> convertNode L c n (join_slash bs))"
proof -
  have stable: "(\<forall>v\<in>set (link_values n). untouched L c v) \<longrightarrow>
      convertNode L c n basePath = n"
    by (simp add: convertNode_fixed untouched_converted)
  have again: "converted L c (join_slash bs) v = join_slash (bs @ xs) \<and>
      converted L c (join_slash bs) (join_slash (bs @ xs)) = join_slash (bs @ bs @ xs) \<and>
      convertNode L c (convertNode L c n (join_slash bs)) (join_slash bs)
        \<noteq> convertNode L c n (join_slash bs)"
    if a: "relative_link L bs xs v \<and> v \<in> set (link_values n)"
  proof -
  from a have p: "plain_path bs" "plain_path xs" "v \<noteq> []" "\<not> HasPrefix v ''#''"
    "parses_relative L v (join_slash xs)"
    "\<not> HasPrefix (join_slash (bs @ xs)) ''#''"
    "parses_relative L (join_slash (bs @ xs)) (join_slash (bs @ xs))"
    by (simp_all add: relative_link_def)
  then have p: "plain_path bs" "plain_path xs" "v \<noteq> []" "\<not> HasPrefix v ''#''"
    "parses_relative L v (join_slash xs)"
    "\<not> HasPrefix (join_slash (bs @ xs)) ''#''"
    "parses_relative L (join_slash (bs @ xs)) (join_slash (bs @ xs))"
    by (simp_all add: relative_link_def)
  have ne: "join_slash (bs @ xs) \<noteq> []"
    using join_slash_plain_hd [OF plain_path_append [OF p(1,2)]] by simp
  have first: "converted L c (join_slash bs) v = join_slash (bs @ xs)"
    using converted_relative [OF p(1,2,3,4,5)] .
  have second: "converted L c (join_slash bs) (join_slash (bs @ xs)) = join_slash (bs @ bs @ xs)"
    using converted_relative [OF p(1) plain_path_append [OF p(1,2)] ne p(6,7)] .
  have "join_slash (bs @ xs) \<in> set (link_values (convertNode L c n (join_slash bs)))"
    using a first by (auto simp add: link_values_converted intro: rev_image_eqI)
  moreover have "converted L c (join_slash bs) (join_slash (bs @ xs)) \<noteq> join_slash (bs @ xs)"
    using second join_slash_prefixed_differs [OF p(1,2)] by simp
  ultimately have "convertNode L c (convertNode L c n (join_slash bs)) (join_slash bs)
        \<noteq> convertNode L c n (join_slash bs)"
    unfolding convertNode_fixed by blast
  with first second show ?thesis by simp
  qed
  from stable again show ?thesis by blast
qed

text \<open>
  On the example: a document with a link to another host and an anchor stays as it is;
  the link \<open>css/style.css\<close> in a file of \<open>out/example.test\<close> gets the directory in front
  in the first pass and once more in the second.
\<close>

theorem convertNode_second_pass_witness:
  "convertNode net_url (converter example_mirror)
     (page_doc [link_elem ''a'' ''href'' ''http://other.test/x.html'', link_elem ''a'' ''href'' ''#top''])
     ''out/example.test''
   = page_doc [link_elem ''a'' ''href'' ''http://other.test/x.html'', link_elem ''a'' ''href'' ''#top''] \<and>
   relative_link net_url [''out'', ''example.test''] [''css'', ''style.css''] ''css/style.css'' \<and>
   converted net_url (converter example_mirror) ''out/example.test'' ''css/style.css''
     = ''out/example.test/css/style.css'' \<and>
   converted net_url (converter example_mirror) ''out/example.test'' ''out/example.test/css/style.css''
     = ''out/example.test/out/example.test/css/style.css'' \<and>
   convertNode net_url (converter example_mirror)
     (convertNode net_url (converter example_mirror)
        (page_doc [link_elem ''link'' ''href'' ''css/style.css'']) ''out/example.test'')
     ''out/example.test''
   \<noteq> convertNode net_url (converter example_mirror)
        (page_doc [link_elem ''link'' ''href'' ''css/style.css'']) ''out/example.test''"
proof -
  let ?c = "converter example_mirror"
  let ?n = "page_doc [link_elem ''a'' ''href'' ''http://other.test/x.html'', link_elem ''a'' ''href'' ''#top'']"
  let ?m = "page_doc [link_elem ''link'' ''href'' ''css/style.css'']"
  have lv: "link_values ?n = [''http://other.test/x.html'', ''#top'']" by code_simp
  have u1: "untouched net_url ?c ''http://other.test/x.html''" by code_simp
  have u2: "untouched net_url ?c ''#top''" by code_simp
  have all: "\<forall>v\<in>set (link_values ?n). untouched net_url ?c v" using lv u1 u2 by simp
  have r: "relative_link net_url [''out'', ''example.test''] [''css'', ''style.css''] ''css/style.css''"
    by code_simp
  have m: "''css/style.css'' \<in> set (link_values ?m)" by code_simp
  have j1: "join_slash [''out'', ''example.test''] = ''out/example.test''" by simp
  have j2: "join_slash ([''out'', ''example.test''] @ [''css'', ''style.css''])
              = ''out/example.test/css/style.css''" by simp
  have j3: "join_slash ([''out'', ''example.test''] @ [''out'', ''example.test''] @ [''css'', ''style.css''])
              = ''out/example.test/out/example.test/css/style.css''" by simp
  from convertNode_second_pass [of ?n net_url ?c "''out/example.test''"] all
  have a: "convertNode net_url ?c ?n ''out/example.test'' = ?n" by blast
  from convertNode_second_pass [of ?m net_url ?c _ "[''out'', ''example.test'']" "[''css'', ''style.css'']" "''css/style.css''"] r m
  have b: "converted net_url ?c ''out/example.test'' ''css/style.css''
     = ''out/example.test/css/style.css'' \<and>
   converted net_url ?c ''out/example.test'' ''out/example.test/css/style.css''
     = ''out/example.test/out/example.test/css/style.css'' \<and>
   convertNode net_url ?c (convertNode net_url ?c ?m ''out/example.test'') ''out/example.test''
   \<noteq> convertNode net_url ?c ?m ''out/example.test''"
    unfolding j1 j2 j3 by blast
  from a r b show ?thesis by blast
qed

text \<open>
  Claim C6 as stated fails: in a file of \<open>out/example.test\<close> the link \<open>a.html\<close> becomes
  \<open>out/example.test/a.html\<close>, and a second pass prefixes the directory once more.
\<close>

theorem convertNode_twice_counterexample:
  "convertNode net_url (converter example_mirror) (link_elem ''a'' ''href'' ''a.html'')
     ''out/example.test''
     = link_elem ''a'' ''href'' ''out/example.test/a.html'' \<and>
   convertNode net_url (converter example_mirror)
     (link_elem ''a'' ''href'' ''out/example.test/a.html'') ''out/example.test''
     = link_elem ''a'' ''href'' ''out/example.test/out/example.test/a.html''"
  by code_simp

section \<open>Properties of downloadResource\<close>

lemma write_file_fst: "fst (write_file W path data fs) = short_write W path data"
  by (simp add: write_file_def short_write_def split: option.splits)

lemma write_file_snd_ok:
  "\<not> short_write W path data \<Longrightarrow> snd (write_file W path data fs) = fs(path \<mapsto> data)"
  by (simp add: write_file_def short_write_def split: option.splits)

text \<open>
  Claim C7, as amended. Given the response of the client, \<open>downloadResource\<close> succeeds
  exactly when the status code is 200, the directory and the file can be created, and
  the body is read and written to its end; it then leaves the body at \<open>LocalPath\<close>.
  Every other status code, inside or outside the 2xx range, is an error.
\<close>

theorem downloadResource_status_200:
  assumes "client_Get W (ResURL r) = Some resp"
  shows "((fst (downloadResource W r fs) = None) =
            (StatusCode resp = 200 \<and> \<not> MkdirAll_fails W (Dir (LocalPath r)) \<and>
             \<not> Create_fails W (LocalPath r) \<and> \<not> BodyFails resp \<and>
             \<not> short_write W (LocalPath r) (Body resp))) \<and>
         (fst (downloadResource W r fs) = None \<longrightarrow>
            snd (downloadResource W r fs) = fs(LocalPath r \<mapsto> Body resp))"
proof -
  obtain failed fs1 where
    w: "write_file W (LocalPath r) (Body resp) (fs(LocalPath r \<mapsto> [])) = (failed, fs1)"
    by (cases "write_file W (LocalPath r) (Body resp) (fs(LocalPath r \<mapsto> []))")
  have f: "failed = short_write W (LocalPath r) (Body resp)"
    using write_file_fst [of W "LocalPath r" "Body resp" "fs(LocalPath r \<mapsto> [])"] w by simp
  have s: "\<not> failed \<Longrightarrow> fs1 = fs(LocalPath r \<mapsto> Body resp)"
    using write_file_snd_ok [of W "LocalPath r" "Body resp" "fs(LocalPath r \<mapsto> [])"] w f
    by simp
  show ?thesis
    using assms w f s by (auto simp add: downloadResource_def)
qed

text \<open>On the example: a response with status 200 is stored.\<close>

theorem downloadResource_status_200_witness:
  "client_Get (serving 200 ''<html></html>'' False) (ResURL page_resource)
     = Some \<lparr>StatusCode = 200, Body = ''<html></html>'', BodyFails = False\<rparr> \<and>
   fst (downloadResource (serving 200 ''<html></html>'' False) page_resource Map.empty) = None \<and>
   snd (downloadResource (serving 200 ''<html></html>'' False) page_resource Map.empty)
     = [''out/example.test/a.html'' \<mapsto> ''<html></html>'']"
proof -
  have g: "client_Get (serving 200 ''<html></html>'' False) (ResURL page_resource)
     = Some \<lparr>StatusCode = 200, Body = ''<html></html>'', BodyFails = False\<rparr>"
    by (simp add: serving_def page_resource_def)
  have d: "Dir ''out/example.test/a.html'' = ''out/example.test''" by code_simp
  show ?thesis
    using downloadResource_status_200 [OF g, of Map.empty] g
    by (simp add: serving_def page_resource_def short_write_def)
qed

text \<open>
  Claim C7 as stated fails: status 201 is in the 2xx range, and \<open>downloadResource\<close>
  returns an error and stores nothing.
\<close>

theorem downloadResource_201_counterexample:
  "downloadResource (serving 201 ''<html></html>'' False) page_resource Map.empty
     = (Some (StatusError 201), Map.empty)"
  by (simp add: downloadResource_def serving_def page_resource_def)

lemma write_file_written:
  "snd (write_file W path data fs) = fs(path \<mapsto> written_bytes W path data)"
  by (simp add: write_file_def written_bytes_def split: option.splits)

text \<open>
  Claim C9, as amended. When \<open>downloadResource\<close> fails before the copy of the body (the
  directory, the request, the status code, the creation of the file), the files are as
  they were. When the copy fails, the file at \<open>LocalPath\<close> stays and holds exactly the
  bytes written so far: all the bytes read from the body when reading it failed, and
  the first \<open>n\<close> of them when writing failed after \<open>n\<close> bytes. A copy fails exactly when
  reading the body fails or the write falls short.
\<close>

theorem downloadResource_error_files:
  assumes "fst (downloadResource W r fs) = Some e"
  shows "(e \<noteq> CopyError \<longrightarrow> snd (downloadResource W r fs) = fs) \<and>
         (e = CopyError \<longrightarrow>
            (\<exists>resp. client_Get W (ResURL r) = Some resp \<and> StatusCode resp = 200 \<and>
               (BodyFails resp \<or> short_write W (LocalPath r) (Body resp)) \<and>
               snd (downloadResource W r fs) =
                 fs(LocalPath r \<mapsto> written_bytes W (LocalPath r) (Body resp))))"
proof (cases "client_Get W (ResURL r)")
  case None
  then show ?thesis using assms by (auto simp add: downloadResource_def split: if_splits)
next
  case (Some resp)
  obtain failed fs1 where
    w: "write_file W (LocalPath r) (Body resp) (fs(LocalPath r \<mapsto> [])) = (failed, fs1)"
    by (cases "write_file W (LocalPath r) (Body resp) (fs(LocalPath r \<mapsto> []))")
  have f: "failed = short_write W (LocalPath r) (Body resp)"
    using write_file_fst [of W "LocalPath r" "Body resp" "fs(LocalPath r \<mapsto> [])"] w by simp
  have "fs1 = (fs(LocalPath r \<mapsto> []))(LocalPath r \<mapsto> written_bytes W (LocalPath r) (Body resp))"
    using write_file_written [of W "LocalPath r" "Body resp" "fs(LocalPath r \<mapsto> [])"] w
    by simp
  then have n: "fs1 = fs(LocalPath r \<mapsto> written_bytes W (LocalPath r) (Body resp))" by simp
  show ?thesis
    using assms Some w n f by (auto simp add: downloadResource_def split: if_splits)
qed

text \<open>
  On the example: after a 404 the files are unchanged; and when the disk takes six
  bytes only, the error is that of the copy and the file holds the six bytes.
\<close>

theorem downloadResource_error_files_witness:
  "fst (downloadResource (serving 404 ''not found'' False) page_resource Map.empty)
     = Some (StatusError 404) \<and>
   snd (downloadResource (serving 404 ''not found'' False) page_resource Map.empty) = Map.empty \<and>
   fst (downloadResource ((serving 200 ''<html></html>'' False)\<lparr>Write_limit := (\<lambda>_. Some 6)\<rparr>)
          page_resource Map.empty) = Some CopyError \<and>
   snd (downloadResource ((serving 200 ''<html></html>'' False)\<lparr>Write_limit := (\<lambda>_. Some 6)\<rparr>)
          page_resource Map.empty) = [''out/example.test/a.html'' \<mapsto> ''<html>'']"
proof -
  let ?W = "(serving 200 ''<html></html>'' False)\<lparr>Write_limit := (\<lambda>_. Some 6)\<rparr>"
  have e: "fst (downloadResource (serving 404 ''not found'' False) page_resource Map.empty)
     = Some (StatusError 404)"
    by (simp add: downloadResource_def serving_def page_resource_def)
  have c: "fst (downloadResource ?W page_resource Map.empty) = Some CopyError"
    by (simp add: downloadResource_def serving_def page_resource_def write_file_def)
  have g: "client_Get ?W (ResURL page_resource)
             = Some \<lparr>StatusCode = 200, Body = ''<html></html>'', BodyFails = False\<rparr>"
    by (simp add: serving_def page_resource_def)
  have b: "written_bytes ?W ''out/example.test/a.html'' ''<html></html>'' = ''<html>''"
    by (simp add: written_bytes_def serving_def)
  have "snd (downloadResource ?W page_resource Map.empty)
          = [''out/example.test/a.html'' \<mapsto> ''<html>'']"
    using downloadResource_error_files [OF c] g b by (auto simp add: page_resource_def)
  then show ?thesis using downloadResource_error_files [OF e] e c by simp
qed

text \<open>
  Claim C9 as stated fails: when reading the body fails after \<open><html>par\<close>, the error is
  returned and the partial file remains at \<open>LocalPath\<close>.
\<close>

theorem downloadResource_partial_counterexample:
  "fst (downloadResource (serving 200 ''<html>par'' True) page_resource Map.empty) = Some CopyError \<and>
   snd (downloadResource (serving 200 ''<html>par'' True) page_resource Map.empty)
     (LocalPath page_resource) = Some ''<html>par''"
  by (simp add: downloadResource_def serving_def page_resource_def write_file_def)

section \<open>Properties of parseRateLimit\<close>

lemma digit_val_digit: "(digit_val c = Some d \<and> d < 10) = (is_digit c \<and> d = of_char c - 48)"
  by (auto simp: digit_val_def is_digit_def Let_def split: if_splits)

lemma digit_val_cases:
  "(case digit_val c of None \<Rightarrow> A | Some d \<Rightarrow> if d \<ge> 10 then A else B d)
   = (if is_digit c then B (of_char c - 48) else A)"
  by (auto simp: digit_val_def is_digit_def Let_def split: if_splits option.splits)

lemma dec_acc_mono: "n \<le> dec_acc n cs"
proof (induction cs arbitrary: n)
  case Nil show ?case by simp
next
  case (Cons c cs)
  have "n \<le> n * 10 + (of_char c - 48)" by simp
  also have "\<dots> \<le> dec_acc (n * 10 + (of_char c - 48)) cs" by (rule Cons.IH)
  finally show ?case by simp
qed

lemma step_word:
  fixes n :: "64 word"
  assumes "d < 10"
  shows "(\<not> n \<ge> cutoff10 \<and> \<not> (n * 10 + of_nat d < n * 10 \<or> n * 10 + of_nat d > maxVal))
         = (unat n * 10 + d < 2 ^ 64)"
    and "unat n * 10 + d < 2 ^ 64 \<Longrightarrow> unat (n * 10 + of_nat d) = unat n * 10 + d"
proof -
  have m: "\<not> (x > maxVal)" for x :: "64 word"
    unfolding maxVal_def word_less_nat_alt using unsigned_less [of x, where 'a = nat] by simp
  have un: "unat n < 2 ^ 64" using unsigned_less [of n, where 'a = nat] by simp
  show "unat n * 10 + d < 2 ^ 64 \<Longrightarrow> unat (n * 10 + of_nat d) = unat n * 10 + d"
    using assms by (simp add: unat_word_ariths unat_of_nat)
  show "(\<not> n \<ge> cutoff10 \<and> \<not> (n * 10 + of_nat d < n * 10 \<or> n * 10 + of_nat d > maxVal))
         = (unat n * 10 + d < 2 ^ 64)"
  proof (cases "n \<ge> cutoff10")
    case True
    then have "unat n \<ge> 1844674407370955162"
      by (simp add: cutoff10_def word_le_nat_alt)
    then show ?thesis using True by simp
  next
    case False
    then have lt: "unat n < 1844674407370955162"
      by (simp add: cutoff10_def word_le_nat_alt)
    then have u10: "unat (n * 10) = unat n * 10"
      by (simp add: unat_word_ariths)
    have ud: "unat (of_nat d :: 64 word) = d" using assms by (simp add: unat_of_nat)
    have "(n * 10 + of_nat d < n * 10) = (\<not> unat (n * 10) + unat (of_nat d :: 64 word) < 2 ^ 64)"
    proof -
      have "(n * 10 + of_nat d < n * 10) = (\<not> n * 10 \<le> n * 10 + of_nat d)" by (simp add: not_le)
      also have "\<dots> = (\<not> unat (n * 10) + unat (of_nat d :: 64 word) < 2 ^ 64)"
        using no_olen_add_nat [of "n * 10" "of_nat d"] by simp
      finally show ?thesis .
    qed
    then show ?thesis using False m by (simp add: u10 ud)
  qed
qed

lemma parseUint_loop_Inr:
  "(parseUint_loop cs n = Inr r) =
     (list_all is_digit cs \<and> dec_acc (unat n) cs < 2 ^ 64 \<and> r = of_nat (dec_acc (unat n) cs))"
proof (induction cs arbitrary: n)
  case Nil
  show ?case using unsigned_less [of n, where 'a = nat] by auto
next
  case (Cons c cs)
  show ?case
  proof (cases "is_digit c")
    case False
    then show ?thesis by (simp add: digit_val_cases)
  next
    case True
    define d where "d = (of_char c :: nat) - 48"
    have d: "d < 10" using True by (auto simp: d_def is_digit_def)
    show ?thesis
    proof (cases "unat n * 10 + d < 2 ^ 64")
      case True
      note fit = this
      have a: "\<not> n \<ge> cutoff10" "\<not> (n * 10 + of_nat d < n * 10 \<or> n * 10 + of_nat d > maxVal)"
        using step_word(1) [OF d, of n] fit by auto
      have "parseUint_loop (c # cs) n = parseUint_loop cs (n * 10 + of_nat d)"
        using \<open>is_digit c\<close> a by (simp add: digit_val_cases d_def [symmetric] Let_def)
      then show ?thesis
        using Cons.IH [of "n * 10 + of_nat d"] step_word(2) [OF d fit] \<open>is_digit c\<close>
        by (simp add: d_def)
    next
      case False
      then have b: "n \<ge> cutoff10 \<or> (n * 10 + of_nat d < n * 10 \<or> n * 10 + of_nat d > maxVal)"
        using step_word(1) [OF d, of n] by auto
      have "parseUint_loop (c # cs) n = Inl ErrRange"
        using \<open>is_digit c\<close> b by (auto simp add: digit_val_cases d_def [symmetric] Let_def)
      moreover have "\<not> dec_acc (unat n * 10 + d) cs < 2 ^ 64"
        using dec_acc_mono [of "unat n * 10 + d" cs] False by linarith
      ultimately show ?thesis by (simp add: d_def)
    qed
  qed
qed

lemma ParseUint_Inr:
  "(ParseUint s = Inr u) =
     (s \<noteq> [] \<and> list_all is_digit s \<and> digits_value s < 2 ^ 64 \<and> u = of_nat (digits_value s))"
  by (simp add: ParseUint_def parseUint_loop_Inr digits_value_def)

lemma word_of_nat_le63:
  fixes v :: nat
  assumes "v < 2 ^ 64"
  shows "((2 ^ 63 :: 64 word) \<le> of_nat v) = (2 ^ 63 \<le> v)"
    and "((2 ^ 63 :: 64 word) < of_nat v) = (2 ^ 63 < v)"
  using assms by (simp_all add: word_le_nat_alt word_less_nat_alt unat_of_nat)

lemma ParseInt_unsigned:
  assumes "c \<noteq> CHR ''+''" "c \<noteq> CHR ''-''"
  shows "(ParseInt (c # cs) = Inr r) =
           (list_all is_digit (c # cs) \<and> digits_value (c # cs) < 2 ^ 63
            \<and> r = of_nat (digits_value (c # cs)))"
proof (cases "ParseUint (c # cs)")
  case (Inl e)
  then have "\<not> (list_all is_digit (c # cs) \<and> digits_value (c # cs) < 2 ^ 64)"
    using ParseUint_Inr [of "c # cs"] by auto
  moreover have "ParseInt (c # cs) \<noteq> Inr r"
    using Inl assms by (cases e) (simp_all add: ParseInt_def maxVal_def)
  ultimately show ?thesis by auto
next
  case (Inr u)
  then have u: "list_all is_digit (c # cs)" "digits_value (c # cs) < 2 ^ 64"
    "u = of_nat (digits_value (c # cs))"
    using ParseUint_Inr [of "c # cs" u] by auto
  show ?thesis
    using Inr assms u(1,2) word_of_nat_le63(1) [OF u(2)]
    by (auto simp add: ParseInt_def u(3) not_le)
qed

lemma ParseInt_signed:
  assumes "c = CHR ''+'' \<or> c = CHR ''-''"
  shows "(ParseInt (c # cs) = Inr r) =
           (cs \<noteq> [] \<and> list_all is_digit cs \<and>
            (if c = CHR ''-'' then digits_value cs \<le> 2 ^ 63 \<and> r = - of_nat (digits_value cs)
             else digits_value cs < 2 ^ 63 \<and> r = of_nat (digits_value cs)))"
proof (cases "ParseUint cs")
  case (Inl e)
  then have "\<not> (cs \<noteq> [] \<and> list_all is_digit cs \<and> digits_value cs < 2 ^ 64)"
    using ParseUint_Inr [of cs] by auto
  moreover have "ParseInt (c # cs) \<noteq> Inr r"
    using Inl assms by (cases e) (auto simp add: ParseInt_def maxVal_def)
  ultimately show ?thesis by auto
next
  case (Inr u)
  then have u: "cs \<noteq> []" "list_all is_digit cs" "digits_value cs < 2 ^ 64"
    "u = of_nat (digits_value cs)"
    using ParseUint_Inr [of cs u] by auto
  show ?thesis
    using Inr assms u(1,2,3) word_of_nat_le63 [OF u(3)]
    by (auto simp add: ParseInt_def u(4) not_le not_less)
qed

lemma ParseInt_Inr:
  "(ParseInt s = Inr r) =
     (is_decimal s \<and> fits_int64 (decimal_value s) \<and> r = word_of_int (decimal_value s))"
proof (cases s)
  case Nil
  then show ?thesis by (simp add: ParseInt_def is_decimal_def)
next
  case (Cons c cs)
  show ?thesis
  proof (cases "c = CHR ''+'' \<or> c = CHR ''-''")
    case True
    show ?thesis
      unfolding Cons ParseInt_signed [OF True]
      using True by (auto simp add: is_decimal_def decimal_value_def fits_int64_def)
  next
    case False
    then have "c \<noteq> CHR ''+''" "c \<noteq> CHR ''-''" by auto
    from ParseInt_unsigned [OF this] False show ?thesis
      unfolding Cons by (auto simp add: is_decimal_def decimal_value_def fits_int64_def)
  qed
qed

lemma HasSuffix_single: "HasSuffix s [c] = (s \<noteq> [] \<and> last s = c)"
proof (cases s rule: rev_cases)
  case Nil
  then show ?thesis by (simp add: HasSuffix_def)
next
  case (snoc ys y)
  then show ?thesis by (simp add: HasSuffix_def)
qed

lemma parseRateLimit_unfold:
  assumes "s \<noteq> []"
  shows "parseRateLimit lower s =
     (case ParseInt (rate_number (lower s)) of Inl e \<Rightarrow> Inl e
      | Inr rate \<Rightarrow> Inr (rate * word_of_int (rate_multiplier (lower s))))"
proof -
  define rl where "rl = lower s"
  have bl: "take (length rl - 1) rl = butlast rl" by (simp add: butlast_conv_take)
  have p: "parseRateLimit lower s =
     (case (if HasSuffix rl ''k'' then (1024, butlast rl)
            else if HasSuffix rl ''m'' then (1024 * 1024, butlast rl)
            else (1, rl)) of
        (multiplier, rl1) \<Rightarrow>
          (case ParseInt rl1 of Inl e \<Rightarrow> Inl e | Inr rate \<Rightarrow> Inr (rate * multiplier)))"
    using assms unfolding parseRateLimit_def Let_def rl_def [symmetric] bl by simp
  consider (k) "rl \<noteq> []" "last rl = CHR ''k''" | (m) "rl \<noteq> []" "last rl = CHR ''m''"
    | (n) "rl = [] \<or> (last rl \<noteq> CHR ''k'' \<and> last rl \<noteq> CHR ''m'')" by blast
  then show ?thesis
  proof cases
    case k
    then show ?thesis
      by (simp add: p HasSuffix_single rate_number_def rate_multiplier_def rl_def [symmetric]
          split: sum.splits)
  next
    case m
    then show ?thesis
      by (simp add: p HasSuffix_single rate_number_def rate_multiplier_def rl_def [symmetric]
          split: sum.splits)
  next
    case n
    then show ?thesis
      by (auto simp add: p HasSuffix_single rate_number_def rate_multiplier_def rl_def [symmetric]
          split: sum.splits)
  qed
qed

text \<open>
  Claim C10, as amended. \<open>parseRateLimit\<close> returns \<open>(0, nil)\<close> for the empty string. For
  every other input it lower-cases the string with \<open>strings.ToLower\<close>, whatever that
  function returns for it, takes 1024 as multiplier for a trailing \<open>k\<close> and 1048576 for
  a trailing \<open>m\<close> of the lower-cased string, and succeeds exactly when the remaining
  number part is an optionally signed decimal integer that fits into \<open>int64\<close>; the result
  is then the product of that integer and the multiplier, reduced to 64 bits (it wraps
  around on overflow). It returns an error exactly when the number part is not a decimal
  integer or lies outside the \<open>int64\<close> range.
\<close>

theorem parseRateLimit_int64:
  "((parseRateLimit lower s = Inr r) =
      (s = [] \<and> r = 0 \<or>
       s \<noteq> [] \<and> is_decimal (rate_number (lower s)) \<and>
       fits_int64 (decimal_value (rate_number (lower s))) \<and>
       r = word_of_int (decimal_value (rate_number (lower s)) * rate_multiplier (lower s)))) \<and>
   ((\<exists>e. parseRateLimit lower s = Inl e) =
      (s \<noteq> [] \<and>
       \<not> (is_decimal (rate_number (lower s)) \<and>
          fits_int64 (decimal_value (rate_number (lower s))))))"
proof (cases "s = []")
  case True
  then show ?thesis by (simp add: parseRateLimit_def)
next
  case False
  show ?thesis
  proof (cases "ParseInt (rate_number (lower s))")
    case (Inl e)
    then have "\<not> (is_decimal (rate_number (lower s)) \<and>
                 fits_int64 (decimal_value (rate_number (lower s))))"
      using ParseInt_Inr [of "rate_number (lower s)"] by auto
    then show ?thesis using False Inl by (auto simp add: parseRateLimit_unfold)
  next
    case (Inr rate)
    then have "is_decimal (rate_number (lower s))"
      "fits_int64 (decimal_value (rate_number (lower s)))"
      "rate = word_of_int (decimal_value (rate_number (lower s)))"
      using ParseInt_Inr [of "rate_number (lower s)" rate] by auto
    then show ?thesis using False Inr by (auto simp add: parseRateLimit_unfold)
  qed
qed

text \<open>
  Claim C10 as stated fails: \<open>9223372036854775808\<close> (that is \<open>2 ^ 63\<close>) is a decimal
  integer, an ASCII string that \<open>strings.ToLower\<close> returns as it is, and \<open>parseRateLimit\<close>
  returns the range error of \<open>strconv.ParseInt\<close> for it.
\<close>

theorem parseRateLimit_range_counterexample:
  "is_decimal ''9223372036854775808'' \<and>
   ToLower ''9223372036854775808'' = ''9223372036854775808'' \<and>
   parseRateLimit ToLower ''9223372036854775808'' = Inl ErrRange"
  by code_simp

text \<open>
  The example of the claim, for every lower-casing function that maps \<open>400K\<close> to \<open>400k\<close>;
  the same rate written with the Kelvin sign, which \<open>strings.ToLower\<close> maps to \<open>k\<close>; and
  a product that wraps around.
\<close>

lemma parseRateLimit_400K:
  "lower ''400K'' = ''400k'' \<Longrightarrow> parseRateLimit lower ''400K'' = Inr 409600"
  by (simp add: parseRateLimit_def HasSuffix_def) code_simp

lemma parseRateLimit_400_kelvin:
  "lower (''400'' @ kelvin_sign) = ''400k'' \<Longrightarrow>
   parseRateLimit lower (''400'' @ kelvin_sign) = Inr 409600"
  by (simp add: parseRateLimit_def HasSuffix_def) code_simp

lemma parseRateLimit_wraps:
  "parseRateLimit ToLower ''9007199254740992k'' = Inr 9223372036854775808"
  by code_simp

end
